theory Spec2Isabelle
  imports Complex_Main
begin

section \<open>Data model\<close>

text \<open>
  The program is a Python add-on for a 3D host application. It reads a base object's
  material, builds a shader node graph that remaps colours, and assigns the new material
  to a variant object. The host's data blocks are modelled as an explicit store
  (objects, meshes, materials, each addressed by its position); Python floats are
  modelled as real numbers.
\<close>

type_synonym color = "real \<times> real \<times> real \<times> real"

datatype node_kind =
    ShaderNodeOutputMaterial
  | ShaderNodeBsdfPrincipled
  | ShaderNodeTexImage
  | ShaderNodeRGB
  | ShaderNodeVectorMath
  | ShaderNodeMath
  | ShaderNodeClamp
  | ShaderNodeMixRGB

datatype operation = ADD | DISTANCE | DIVIDE | SUBTRACT

text \<open>A socket's \<open>default_value\<close>: a scalar, a 4-channel colour, or none (shader sockets).\<close>

datatype socket_value = Float real | RGBA color | NoValue

text \<open>The source addresses sockets by position (\<open>inputs[1]\<close>) or by name (\<open>inputs["Fac"]\<close>).\<close>

datatype socket_key = Idx nat | Name string

record node =
  bl_idname :: node_kind
  location :: "int \<times> int"
  operation :: operation
  image :: "nat option"
  inputs :: "(string \<times> socket_value) list"
  outputs :: "(string \<times> socket_value) list"

text \<open>A link runs from an output socket of one node to an input socket of another;
  nodes are addressed by their position in the tree's node collection.\<close>

record link =
  from_node :: nat
  from_socket :: socket_key
  to_node :: nat
  to_socket :: socket_key

record node_tree =
  nodes :: "node list"
  links :: "link list"

record material =
  mat_name :: string
  use_nodes :: bool
  mat_node_tree :: node_tree

text \<open>Material slots live on the mesh data block (\<open>obj.data.materials\<close>), which several
  objects may share.\<close>

record mesh =
  materials :: "nat list"

record object =
  obj_name :: string
  data :: nat
  active_material_index :: nat

record scene =
  objects :: "object list"
  meshes :: "mesh list"
  bpy_materials :: "material list"

section \<open>Host operations used by the source\<close>

text \<open>
  The socket tables of the eight node types the source instantiates, with the names and
  positions by which the source addresses them, and the host's initial default values.
  Sockets of the shading node that the repository never touches are left out.
\<close>

fun default_inputs :: "node_kind \<Rightarrow> (string \<times> socket_value) list" where
  "default_inputs ShaderNodeOutputMaterial =
     [(''Surface'', NoValue), (''Volume'', NoValue), (''Displacement'', NoValue)]"
| "default_inputs ShaderNodeBsdfPrincipled =
     [(''Base Color'', RGBA (8/10, 8/10, 8/10, 1))]"
| "default_inputs ShaderNodeTexImage = [(''Vector'', NoValue)]"
| "default_inputs ShaderNodeRGB = []"
| "default_inputs ShaderNodeVectorMath =
     [(''Vector'', RGBA (0, 0, 0, 0)), (''Vector'', RGBA (0, 0, 0, 0)),
      (''Vector'', RGBA (0, 0, 0, 0)), (''Scale'', Float 1)]"
| "default_inputs ShaderNodeMath =
     [(''Value'', Float (1/2)), (''Value'', Float (1/2)), (''Value'', Float (1/2))]"
| "default_inputs ShaderNodeClamp =
     [(''Value'', Float 1), (''Min'', Float 0), (''Max'', Float 1)]"
| "default_inputs ShaderNodeMixRGB =
     [(''Fac'', Float (1/2)), (''Color1'', RGBA (1/2, 1/2, 1/2, 1)),
      (''Color2'', RGBA (1/2, 1/2, 1/2, 1))]"

fun default_outputs :: "node_kind \<Rightarrow> (string \<times> socket_value) list" where
  "default_outputs ShaderNodeOutputMaterial = []"
| "default_outputs ShaderNodeBsdfPrincipled = [(''BSDF'', NoValue)]"
| "default_outputs ShaderNodeTexImage = [(''Color'', NoValue), (''Alpha'', NoValue)]"
| "default_outputs ShaderNodeRGB = [(''Color'', RGBA (1/2, 1/2, 1/2, 1))]"
| "default_outputs ShaderNodeVectorMath = [(''Vector'', NoValue), (''Value'', NoValue)]"
| "default_outputs ShaderNodeMath = [(''Value'', NoValue)]"
| "default_outputs ShaderNodeClamp = [(''Result'', NoValue)]"
| "default_outputs ShaderNodeMixRGB = [(''Color'', NoValue)]"

text \<open>The \<open>type\<close> string the source compares against (\<open>n.type == "TEX_IMAGE"\<close>).\<close>

fun node_type :: "node_kind \<Rightarrow> string" where
  "node_type ShaderNodeOutputMaterial = ''OUTPUT_MATERIAL''"
| "node_type ShaderNodeBsdfPrincipled = ''BSDF_PRINCIPLED''"
| "node_type ShaderNodeTexImage = ''TEX_IMAGE''"
| "node_type ShaderNodeRGB = ''RGB''"
| "node_type ShaderNodeVectorMath = ''VECT_MATH''"
| "node_type ShaderNodeMath = ''MATH''"
| "node_type ShaderNodeClamp = ''CLAMP''"
| "node_type ShaderNodeMixRGB = ''MIX_RGB''"

definition new_node :: "node_kind \<Rightarrow> node" where
  "new_node k =
     \<lparr>bl_idname = k, location = (0, 0), operation = ADD, image = None,
      inputs = default_inputs k, outputs = default_outputs k\<rparr>"

text \<open>\<open>sockets[key]\<close>: a position, or the first socket carrying the name.\<close>

fun index_of :: "string \<Rightarrow> (string \<times> socket_value) list \<Rightarrow> nat option" where
  "index_of s [] = None"
| "index_of s (p # ps) =
     (if fst p = s then Some 0
      else (case index_of s ps of None \<Rightarrow> None | Some i \<Rightarrow> Some (Suc i)))"

fun socket_index :: "(string \<times> socket_value) list \<Rightarrow> socket_key \<Rightarrow> nat option" where
  "socket_index ss (Idx i) = (if i < length ss then Some i else None)"
| "socket_index ss (Name s) = index_of s ss"

text \<open>\<open>sockets[key].default_value = v\<close>. Every key the source writes through is a literal
  that exists on the node type it has just created; an unknown key leaves the sockets
  as they are.\<close>

definition set_default ::
  "socket_key \<Rightarrow> socket_value \<Rightarrow> (string \<times> socket_value) list \<Rightarrow> (string \<times> socket_value) list"
where
  "set_default k v ss =
     (case socket_index ss k of
        None \<Rightarrow> ss
      | Some i \<Rightarrow> ss[i := (fst (ss ! i), v)])"

text \<open>\<open>nt.nodes.new(kind)\<close>: the new node is appended; its position is returned as the handle.\<close>

definition nodes_new :: "node_kind \<Rightarrow> node_tree \<Rightarrow> nat \<times> node_tree" where
  "nodes_new k nt = (length (nodes nt), nt\<lparr>nodes := nodes nt @ [new_node k]\<rparr>)"

definition upd_node :: "nat \<Rightarrow> (node \<Rightarrow> node) \<Rightarrow> node_tree \<Rightarrow> node_tree" where
  "upd_node n f nt = nt\<lparr>nodes := (nodes nt)[n := f (nodes nt ! n)]\<rparr>"

definition set_location :: "nat \<Rightarrow> int \<times> int \<Rightarrow> node_tree \<Rightarrow> node_tree" where
  "set_location n loc = upd_node n (\<lambda>nd. nd\<lparr>location := loc\<rparr>)"

definition set_operation :: "nat \<Rightarrow> operation \<Rightarrow> node_tree \<Rightarrow> node_tree" where
  "set_operation n opr = upd_node n (\<lambda>nd. nd\<lparr>operation := opr\<rparr>)"

definition set_image :: "nat \<Rightarrow> nat \<Rightarrow> node_tree \<Rightarrow> node_tree" where
  "set_image n img = upd_node n (\<lambda>nd. nd\<lparr>image := Some img\<rparr>)"

definition set_input_default :: "nat \<Rightarrow> socket_key \<Rightarrow> socket_value \<Rightarrow> node_tree \<Rightarrow> node_tree" where
  "set_input_default n k v = upd_node n (\<lambda>nd. nd\<lparr>inputs := set_default k v (inputs nd)\<rparr>)"

definition set_output_default :: "nat \<Rightarrow> socket_key \<Rightarrow> socket_value \<Rightarrow> node_tree \<Rightarrow> node_tree" where
  "set_output_default n k v = upd_node n (\<lambda>nd. nd\<lparr>outputs := set_default k v (outputs nd)\<rparr>)"

text \<open>\<open>nt.links.new(output_socket, input_socket)\<close>: the link is appended to the tree's links.\<close>

definition links_new :: "nat \<times> socket_key \<Rightarrow> nat \<times> socket_key \<Rightarrow> node_tree \<Rightarrow> node_tree" where
  "links_new src dst nt =
     nt\<lparr>links := links nt @
        [\<lparr>from_node = fst src, from_socket = snd src, to_node = fst dst, to_socket = snd dst\<rparr>]\<rparr>"

text \<open>\<open>nt.nodes.clear()\<close>: removing every node removes every link as well.\<close>

definition nodes_clear :: "node_tree \<Rightarrow> node_tree" where
  "nodes_clear nt = nt\<lparr>nodes := [], links := []\<rparr>"

text \<open>The tree a material receives when \<open>use_nodes\<close> is switched on: a shading node wired
  to an output node.\<close>

definition default_node_tree :: node_tree where
  "default_node_tree =
     \<lparr>nodes = [new_node ShaderNodeBsdfPrincipled, new_node ShaderNodeOutputMaterial],
      links = [\<lparr>from_node = 0, from_socket = Name ''BSDF'',
                to_node = 1, to_socket = Name ''Surface''\<rparr>]\<rparr>"

text \<open>\<open>bpy.data.materials.new(name=...)\<close>: a fresh material without nodes is appended to the
  store; its position is the handle. (The host may add a numeric suffix to make the name
  unique; no property below depends on the name.)\<close>

definition materials_new :: "string \<Rightarrow> scene \<Rightarrow> nat \<times> scene" where
  "materials_new nm st =
     (length (bpy_materials st),
      st\<lparr>bpy_materials := bpy_materials st @
            [\<lparr>mat_name = nm, use_nodes = False,
              mat_node_tree = \<lparr>nodes = [], links = []\<rparr>\<rparr>]\<rparr>)"


text \<open>\<open>obj.data.materials.clear()\<close> and \<open>obj.data.materials.append(mat)\<close> act on the mesh
  data block the object points to.\<close>

definition materials_clear :: "nat \<Rightarrow> scene \<Rightarrow> scene" where
  "materials_clear ob st =
     st\<lparr>meshes := (meshes st)[data (objects st ! ob) := \<lparr>materials = []\<rparr>]\<rparr>"

definition materials_append :: "nat \<Rightarrow> nat \<Rightarrow> scene \<Rightarrow> scene" where
  "materials_append ob m st =
     st\<lparr>meshes := (meshes st)[data (objects st ! ob) :=
           \<lparr>materials = materials (meshes st ! data (objects st ! ob)) @ [m]\<rparr>]\<rparr>"

text \<open>\<open>obj.active_material\<close>: the material in the object's active slot, \<open>None\<close> when the
  slot does not exist.\<close>

definition active_material :: "scene \<Rightarrow> nat \<Rightarrow> nat option" where
  "active_material st ob =
     (let ms = materials (meshes st ! data (objects st ! ob));
          i = active_material_index (objects st ! ob)
      in if i < length ms then Some (ms ! i) else None)"

section \<open>color_remap.py\<close>

text \<open>Lines 47-52: the image of the first image-texture node that has one.\<close>

fun first_image :: "node list \<Rightarrow> nat option" where
  "first_image [] = None"
| "first_image (n # ns) =
     (if node_type (bl_idname n) = ''TEX_IMAGE'' \<and> image n \<noteq> None then image n
      else first_image ns)"

definition find_src_img :: "material \<Rightarrow> nat option" where
  "find_src_img base_mat =
     (if use_nodes base_mat then first_image (nodes (mat_node_tree base_mat)) else None)"

text \<open>Lines 64-74: the three base nodes; \<open>last_color_output\<close> starts as the texture's
  colour output.\<close>

definition base_nodes :: "nat \<Rightarrow> node_tree \<Rightarrow> node_tree \<times> nat \<times> nat \<times> nat" where
  "base_nodes src_img nt0 =
     (let (out, nt) = nodes_new ShaderNodeOutputMaterial nt0;
          (bsdf, nt) = nodes_new ShaderNodeBsdfPrincipled nt;
          (tex, nt) = nodes_new ShaderNodeTexImage nt;
          nt = set_image tex src_img nt;
          nt = set_location tex (-800, 0) nt;
          nt = set_location bsdf (600, 0) nt;
          nt = set_location out (900, 0) nt
      in (nt, out, bsdf, tex))"

text \<open>Lines 78-116: the body of the loop, for the pair at position \<open>i\<close>.\<close>

definition remap_step ::
  "nat \<Rightarrow> color \<times> color \<Rightarrow> real \<Rightarrow> node_tree \<times> (nat \<times> socket_key) \<Rightarrow>
   node_tree \<times> (nat \<times> socket_key)"
where
  "remap_step i pair tolerance s =
     (let (nt, last_color_output) = s;
          (source_color, target_color) = pair;
          (src_col, nt) = nodes_new ShaderNodeRGB nt;
          (tgt_col, nt) = nodes_new ShaderNodeRGB nt;
          (dist_node, nt) = nodes_new ShaderNodeVectorMath nt;
          (div_node, nt) = nodes_new ShaderNodeMath nt;
          (sub_node, nt) = nodes_new ShaderNodeMath nt;
          (clamp_node, nt) = nodes_new ShaderNodeClamp nt;
          (mix_node, nt) = nodes_new ShaderNodeMixRGB nt;
          offset_y = - int i * 250;
          nt = set_location src_col (-600, 200 + offset_y) nt;
          nt = set_location tgt_col (-600, -100 + offset_y) nt;
          nt = set_location dist_node (-350, 50 + offset_y) nt;
          nt = set_location div_node (-100, 50 + offset_y) nt;
          nt = set_location sub_node (150, 50 + offset_y) nt;
          nt = set_location clamp_node (400, 50 + offset_y) nt;
          nt = set_location mix_node (250, -200 + offset_y) nt;
          nt = set_output_default src_col (Idx 0) (RGBA source_color) nt;
          nt = set_output_default tgt_col (Idx 0) (RGBA target_color) nt;
          nt = set_operation dist_node DISTANCE nt;
          nt = set_operation div_node DIVIDE nt;
          nt = set_operation sub_node SUBTRACT nt;
          nt = links_new last_color_output (dist_node, Idx 0) nt;
          nt = links_new (src_col, Name ''Color'') (dist_node, Idx 1) nt;
          nt = set_input_default div_node (Idx 1) (Float (max tolerance (1/100000))) nt;
          nt = links_new (dist_node, Name ''Value'') (div_node, Idx 0) nt;
          nt = set_input_default sub_node (Idx 0) (Float 1) nt;
          nt = links_new (div_node, Name ''Value'') (sub_node, Idx 1) nt;
          nt = links_new (sub_node, Name ''Value'') (clamp_node, Name ''Value'') nt;
          nt = links_new last_color_output (mix_node, Idx 1) nt;
          nt = links_new (tgt_col, Name ''Color'') (mix_node, Idx 2) nt;
          nt = links_new (clamp_node, Name ''Result'') (mix_node, Name ''Fac'') nt
      in (nt, (mix_node, Name ''Color'')))"

text \<open>Line 77: \<open>for i, (source_color, target_color) in enumerate(remap_pairs)\<close>.\<close>

fun remap_loop ::
  "nat \<Rightarrow> (color \<times> color) list \<Rightarrow> real \<Rightarrow> node_tree \<times> (nat \<times> socket_key) \<Rightarrow>
   node_tree \<times> (nat \<times> socket_key)"
where
  "remap_loop i [] tolerance s = s"
| "remap_loop i (pair # remap_pairs) tolerance s =
     remap_loop (Suc i) remap_pairs tolerance (remap_step i pair tolerance s)"

text \<open>Lines 60-120: the node tree of the remap material, built on the cleared tree.\<close>

definition build_remap_tree :: "nat \<Rightarrow> (color \<times> color) list \<Rightarrow> real \<Rightarrow> node_tree" where
  "build_remap_tree src_img remap_pairs tolerance =
     (let nt = nodes_clear default_node_tree;
          (nt, out, bsdf, tex) = base_nodes src_img nt;
          last_color_output = (tex, Name ''Color'');
          (nt, last_color_output) = remap_loop 0 remap_pairs tolerance (nt, last_color_output);
          nt = links_new last_color_output (bsdf, Name ''Base Color'') nt;
          nt = links_new (bsdf, Name ''BSDF'') (out, Name ''Surface'') nt
      in nt)"

text \<open>The whole function. The objects are handles into the store (\<open>None\<close> for Python's
  \<open>None\<close>); the result is the returned material handle together with the store.\<close>

definition apply_color_remaps ::
  "scene \<Rightarrow> nat option \<Rightarrow> nat option \<Rightarrow> (color \<times> color) list \<Rightarrow> real \<Rightarrow> nat option \<times> scene"
where
  "apply_color_remaps st base_obj variant_obj remap_pairs tolerance =
     (case (base_obj, variant_obj) of
        (Some b, Some v) \<Rightarrow>
          (case active_material st b of
             None \<Rightarrow> (None, st)
           | Some base_mat \<Rightarrow>
               (case find_src_img (bpy_materials st ! base_mat) of
                  None \<Rightarrow> (None, st)
                | Some src_img \<Rightarrow>
                    (let (remap_mat, st) =
                           materials_new (obj_name (objects st ! v) @ ''_RemapMaterial'') st;
                         nt = build_remap_tree src_img remap_pairs tolerance;
                         st = st\<lparr>bpy_materials := (bpy_materials st)[remap_mat :=
                                 (bpy_materials st ! remap_mat)
                                   \<lparr>use_nodes := True, mat_node_tree := nt\<rparr>]\<rparr>;
                         st = materials_clear v st;
                         st = materials_append v remap_mat st
                     in (Some remap_mat, st))))
      | _ \<Rightarrow> (None, st))"

section \<open>multi_remap_controller.py\<close>


section \<open>What a node graph computes\<close>

text \<open>
  Modelled from the spec: the host's evaluation of a node graph is not part of the
  repository. The meaning of each node follows the spec's per-pair algorithm (section 4.1):
  the distance is Euclidean over the four channels of a colour, the quotient and the
  difference are the usual ones, the clamp node restricts to its bounds (initially 0 and
  1), and the mix node is the linear interpolation \<open>a*(1-f) + b*f\<close>.
\<close>

fun color_distance :: "color \<Rightarrow> color \<Rightarrow> real" where
  "color_distance (r1, g1, b1, a1) (r2, g2, b2, a2) =
     sqrt ((r1 - r2)\<^sup>2 + (g1 - g2)\<^sup>2 + (b1 - b2)\<^sup>2 + (a1 - a2)\<^sup>2)"

fun lerp :: "color \<Rightarrow> color \<Rightarrow> real \<Rightarrow> color" where
  "lerp (r1, g1, b1, a1) (r2, g2, b2, a2) f =
     (r1 * (1 - f) + r2 * f, g1 * (1 - f) + g2 * f,
      b1 * (1 - f) + b2 * f, a1 * (1 - f) + a2 * f)"

fun the_float :: "socket_value option \<Rightarrow> real option" where
  "the_float (Some (Float x)) = Some x"
| "the_float _ = None"

fun the_rgba :: "socket_value option \<Rightarrow> color option" where
  "the_rgba (Some (RGBA c)) = Some c"
| "the_rgba _ = None"

text \<open>A scalar node's operation; a division by zero has no value.\<close>

fun math_op :: "operation \<Rightarrow> real \<Rightarrow> real \<Rightarrow> real option" where
  "math_op ADD a b = Some (a + b)"
| "math_op SUBTRACT a b = Some (a - b)"
| "math_op DIVIDE a b = (if b = 0 then None else Some (a / b))"
| "math_op DISTANCE a b = None"

text \<open>Modelled from the spec: what each node type computes is the host's behaviour; the
  cases follow steps 1-4 of the per-pair algorithm. The value at output \<open>k\<close> of a node,
  given the values \<open>inp\<close> arriving at its inputs and the colour \<open>tex\<close> that each image
  samples to.\<close>

definition node_output ::
  "node \<Rightarrow> nat \<Rightarrow> (nat \<Rightarrow> socket_value option) \<Rightarrow> (nat \<Rightarrow> color) \<Rightarrow> socket_value option"
where
  "node_output nd k inp tex =
     (case bl_idname nd of
        ShaderNodeTexImage \<Rightarrow>
          (if k = 0 then (case image nd of Some im \<Rightarrow> Some (RGBA (tex im)) | None \<Rightarrow> None)
           else None)
      | ShaderNodeRGB \<Rightarrow> (if k = 0 then Some (snd (outputs nd ! 0)) else None)
      | ShaderNodeVectorMath \<Rightarrow>
          (if operation nd = DISTANCE \<and> k = 1 then
             (case (the_rgba (inp 0), the_rgba (inp 1)) of
                (Some a, Some b) \<Rightarrow> Some (Float (color_distance a b))
              | _ \<Rightarrow> None)
           else None)
      | ShaderNodeMath \<Rightarrow>
          (if k = 0 then
             (case (the_float (inp 0), the_float (inp 1)) of
                (Some a, Some b) \<Rightarrow> map_option Float (math_op (operation nd) a b)
              | _ \<Rightarrow> None)
           else None)
      | ShaderNodeClamp \<Rightarrow>
          (if k = 0 then
             (case (the_float (inp 0), the_float (inp 1), the_float (inp 2)) of
                (Some v, Some lo, Some hi) \<Rightarrow> Some (Float (min (max v lo) hi))
              | _ \<Rightarrow> None)
           else None)
      | ShaderNodeMixRGB \<Rightarrow>
          (if k = 0 then
             (case (the_float (inp 0), the_rgba (inp 1), the_rgba (inp 2)) of
                (Some f, Some a, Some b) \<Rightarrow> Some (RGBA (lerp a b f))
              | _ \<Rightarrow> None)
           else None)
      | _ \<Rightarrow> None)"

text \<open>The link that feeds input \<open>i\<close> of node \<open>n\<close>: the most recent one made to that socket.\<close>

fun link_into :: "node list \<Rightarrow> link list \<Rightarrow> nat \<Rightarrow> nat \<Rightarrow> link option" where
  "link_into ns [] n i = None"
| "link_into ns (l # ls) n i =
     (case link_into ns ls n i of
        Some l' \<Rightarrow> Some l'
      | None \<Rightarrow>
          (if to_node l = n \<and> socket_index (inputs (ns ! n)) (to_socket l) = Some i
           then Some l else None))"

text \<open>Evaluation of an output socket, by following links backwards. The fuel bounds the
  length of the path followed, so a cyclic graph has no value.\<close>

fun eval_socket ::
  "nat \<Rightarrow> node_tree \<Rightarrow> (nat \<Rightarrow> color) \<Rightarrow> nat \<Rightarrow> socket_key \<Rightarrow> socket_value option"
where
  "eval_socket 0 nt tex n k = None"
| "eval_socket (Suc fuel) nt tex n k =
     (if n < length (nodes nt) then
        (case socket_index (outputs (nodes nt ! n)) k of
           None \<Rightarrow> None
         | Some j \<Rightarrow>
             node_output (nodes nt ! n) j
               (\<lambda>i. case link_into (nodes nt) (links nt) n i of
                      Some l \<Rightarrow> eval_socket fuel nt tex (from_node l) (from_socket l)
                    | None \<Rightarrow>
                        (if i < length (inputs (nodes nt ! n))
                         then Some (snd (inputs (nodes nt ! n) ! i)) else None))
               tex)
      else None)"

text \<open>The value arriving at input \<open>i\<close> of node \<open>n\<close>: the linked output, or the socket's own
  default when nothing is linked.\<close>

definition eval_input ::
  "nat \<Rightarrow> node_tree \<Rightarrow> (nat \<Rightarrow> color) \<Rightarrow> nat \<Rightarrow> nat \<Rightarrow> socket_value option"
where
  "eval_input fuel nt tex n i =
     (case link_into (nodes nt) (links nt) n i of
        Some l \<Rightarrow> eval_socket fuel nt tex (from_node l) (from_socket l)
      | None \<Rightarrow>
          (if i < length (inputs (nodes nt ! n))
           then Some (snd (inputs (nodes nt ! n) ! i)) else None))"

fun find_node :: "node_kind \<Rightarrow> node list \<Rightarrow> nat option" where
  "find_node k [] = None"
| "find_node k (n # ns) =
     (if bl_idname n = k then Some 0
      else (case find_node k ns of None \<Rightarrow> None | Some i \<Rightarrow> Some (Suc i)))"

text \<open>What a node tree shows: the colour arriving at the base-colour input of the shading
  node that feeds the surface input of the output node. A path through the tree visits
  each node at most once, so the number of nodes is enough fuel.\<close>

definition base_color :: "node_tree \<Rightarrow> (nat \<Rightarrow> color) \<Rightarrow> color option" where
  "base_color nt tex =
     (case find_node ShaderNodeOutputMaterial (nodes nt) of
        None \<Rightarrow> None
      | Some out \<Rightarrow>
          (case index_of ''Surface'' (inputs (nodes nt ! out)) of
             None \<Rightarrow> None
           | Some s \<Rightarrow>
               (case link_into (nodes nt) (links nt) out s of
                  None \<Rightarrow> None
                | Some l \<Rightarrow>
                    (if from_node l < length (nodes nt)
                        \<and> bl_idname (nodes nt ! from_node l) = ShaderNodeBsdfPrincipled
                     then
                       (case index_of ''Base Color'' (inputs (nodes nt ! from_node l)) of
                          None \<Rightarrow> None
                        | Some c \<Rightarrow>
                            the_rgba (eval_input (length (nodes nt)) nt tex (from_node l) c))
                     else None))))"

text \<open>What a material shows (materials without nodes are not modelled).\<close>

definition material_color :: "material \<Rightarrow> (nat \<Rightarrow> color) \<Rightarrow> color option" where
  "material_color m tex = (if use_nodes m then base_color (mat_node_tree m) tex else None)"

section \<open>The chained blend, as the spec words it\<close>

definition spec_epsilon :: real where
  "spec_epsilon = 1 / 100000"

definition spec_clamp :: "real \<Rightarrow> real \<Rightarrow> real \<Rightarrow> real" where
  "spec_clamp x lo hi = (if x < lo then lo else if hi < x then hi else x)"

definition spec_blend_factor :: "color \<Rightarrow> color \<Rightarrow> real \<Rightarrow> real" where
  "spec_blend_factor current source tolerance =
     spec_clamp (1 - color_distance current source / max tolerance spec_epsilon) 0 1"

definition spec_next :: "color \<Rightarrow> color \<times> color \<Rightarrow> real \<Rightarrow> color" where
  "spec_next current pair tolerance =
     lerp current (snd pair) (spec_blend_factor current (fst pair) tolerance)"

fun spec_chain :: "color \<Rightarrow> (color \<times> color) list \<Rightarrow> real \<Rightarrow> color" where
  "spec_chain current [] tolerance = current"
| "spec_chain current (pair # pairs) tolerance =
     spec_chain (spec_next current pair tolerance) pairs tolerance"

section \<open>texture_setup.py\<close>

text \<open>Lines 56-85 of \<open>create_base_material_with_texture\<close>: the node tree of the base
  material, an image texture wired to the shading node, wired to the output node.\<close>

definition base_material_tree :: "nat \<Rightarrow> node_tree" where
  "base_material_tree img =
     (let nt = nodes_clear default_node_tree;
          (tex_node, nt) = nodes_new ShaderNodeTexImage nt;
          (bsdf, nt) = nodes_new ShaderNodeBsdfPrincipled nt;
          (out, nt) = nodes_new ShaderNodeOutputMaterial nt;
          nt = set_location tex_node (-400, 0) nt;
          nt = set_location bsdf (0, 0) nt;
          nt = set_location out (300, 0) nt;
          nt = links_new (tex_node, Name ''Color'') (bsdf, Name ''Base Color'') nt;
          nt = links_new (bsdf, Name ''BSDF'') (out, Name ''Surface'') nt;
          nt = set_image tex_node img nt
      in nt)"

section \<open>Observations\<close>

text \<open>The image source \<open>apply_color_remaps\<close> finds for a base object (lines 42-55).\<close>

definition src_image :: "scene \<Rightarrow> nat \<Rightarrow> nat option" where
  "src_image st b =
     (case active_material st b of
        None \<Rightarrow> None
      | Some base_mat \<Rightarrow> find_src_img (bpy_materials st ! base_mat))"

text \<open>The colour shown by the material that \<open>apply_color_remaps\<close> returns; none when it
  returns no material.\<close>

definition remap_color ::
  "scene \<Rightarrow> nat \<Rightarrow> nat \<Rightarrow> (color \<times> color) list \<Rightarrow> real \<Rightarrow> (nat \<Rightarrow> color) \<Rightarrow> color option"
where
  "remap_color st b v remap_pairs tolerance tex =
     (case apply_color_remaps st (Some b) (Some v) remap_pairs tolerance of
        (None, st') \<Rightarrow> None
      | (Some remap_mat, st') \<Rightarrow> material_color (bpy_materials st' ! remap_mat) tex)"

text \<open>\<open>obj.data.materials\<close>: the material slots an object shows.\<close>

definition material_slots :: "scene \<Rightarrow> nat \<Rightarrow> nat list" where
  "material_slots st ob = materials (meshes st ! data (objects st ! ob))"


text \<open>An image that samples to the same colour everywhere.\<close>

definition uniform :: "color \<Rightarrow> nat \<Rightarrow> color" where
  "uniform c img = c"

section \<open>Example scenes\<close>

text \<open>A base object and its variant as \<open>create_textured_duplicate_with_spacing\<close> leaves
  them: separate mesh data, both showing the base material.\<close>

definition example_scene :: scene where
  "example_scene =
     \<lparr>objects = [\<lparr>obj_name = ''Cube'', data = 0, active_material_index = 0\<rparr>,
                 \<lparr>obj_name = ''Cube_Variant'', data = 1, active_material_index = 0\<rparr>],
      meshes = [\<lparr>materials = [0]\<rparr>, \<lparr>materials = [0]\<rparr>],
      bpy_materials = [\<lparr>mat_name = ''Cube_BaseMaterial'', use_nodes = True,
                        mat_node_tree = base_material_tree 0\<rparr>]\<rparr>"

text \<open>The same two objects as linked duplicates: both point to one mesh data block.\<close>

definition shared_mesh_scene :: scene where
  "shared_mesh_scene =
     \<lparr>objects = [\<lparr>obj_name = ''Cube'', data = 0, active_material_index = 0\<rparr>,
                 \<lparr>obj_name = ''Cube_Variant'', data = 0, active_material_index = 0\<rparr>],
      meshes = [\<lparr>materials = [0]\<rparr>],
      bpy_materials = [\<lparr>mat_name = ''Cube_BaseMaterial'', use_nodes = True,
                        mat_node_tree = base_material_tree 0\<rparr>]\<rparr>"



text \<open>A base object whose material has no nodes, hence no image texture.\<close>

definition untextured_scene :: scene where
  "untextured_scene =
     \<lparr>objects = [\<lparr>obj_name = ''Cube'', data = 0, active_material_index = 0\<rparr>,
                 \<lparr>obj_name = ''Cube_Variant'', data = 1, active_material_index = 0\<rparr>],
      meshes = [\<lparr>materials = [0]\<rparr>, \<lparr>materials = [0]\<rparr>],
      bpy_materials = [\<lparr>mat_name = ''Material'', use_nodes = False,
                        mat_node_tree = \<lparr>nodes = [], links = []\<rparr>\<rparr>]\<rparr>"

section \<open>Auxiliary notions for the proofs\<close>

text \<open>The seven nodes and eight links one pass of the loop adds, written out; the three
  base nodes; links that only enter existing nodes; and trees that agree on everything
  an evaluation can reach.\<close>

definition pair_nodes :: "nat \<Rightarrow> color \<Rightarrow> color \<Rightarrow> real \<Rightarrow> node list" where
  "pair_nodes i s t tol =
     [\<lparr>bl_idname = ShaderNodeRGB, location = (-600, 200 - int i * 250), operation = ADD,
       image = None, inputs = [], outputs = [(''Color'', RGBA s)]\<rparr>,
      \<lparr>bl_idname = ShaderNodeRGB, location = (-600, -100 - int i * 250), operation = ADD,
       image = None, inputs = [], outputs = [(''Color'', RGBA t)]\<rparr>,
      \<lparr>bl_idname = ShaderNodeVectorMath, location = (-350, 50 - int i * 250),
       operation = DISTANCE, image = None,
       inputs = default_inputs ShaderNodeVectorMath,
       outputs = default_outputs ShaderNodeVectorMath\<rparr>,
      \<lparr>bl_idname = ShaderNodeMath, location = (-100, 50 - int i * 250), operation = DIVIDE,
       image = None,
       inputs = [(''Value'', Float (1/2)), (''Value'', Float (max tol (1/100000))),
                 (''Value'', Float (1/2))],
       outputs = default_outputs ShaderNodeMath\<rparr>,
      \<lparr>bl_idname = ShaderNodeMath, location = (150, 50 - int i * 250), operation = SUBTRACT,
       image = None,
       inputs = [(''Value'', Float 1), (''Value'', Float (1/2)), (''Value'', Float (1/2))],
       outputs = default_outputs ShaderNodeMath\<rparr>,
      \<lparr>bl_idname = ShaderNodeClamp, location = (400, 50 - int i * 250), operation = ADD,
       image = None, inputs = default_inputs ShaderNodeClamp,
       outputs = default_outputs ShaderNodeClamp\<rparr>,
      \<lparr>bl_idname = ShaderNodeMixRGB, location = (250, -200 - int i * 250), operation = ADD,
       image = None, inputs = default_inputs ShaderNodeMixRGB,
       outputs = default_outputs ShaderNodeMixRGB\<rparr>]"

definition mk_link :: "nat \<times> socket_key \<Rightarrow> nat \<Rightarrow> socket_key \<Rightarrow> link" where
  "mk_link src c d = \<lparr>from_node = fst src, from_socket = snd src, to_node = c, to_socket = d\<rparr>"

definition pair_links :: "nat \<Rightarrow> nat \<times> socket_key \<Rightarrow> link list" where
  "pair_links n prev =
     [mk_link prev (n + 2) (Idx 0),
      mk_link (n, Name ''Color'') (n + 2) (Idx 1),
      mk_link (n + 2, Name ''Value'') (n + 3) (Idx 0),
      mk_link (n + 3, Name ''Value'') (n + 4) (Idx 1),
      mk_link (n + 4, Name ''Value'') (n + 5) (Name ''Value''),
      mk_link prev (n + 6) (Idx 1),
      mk_link (n + 1, Name ''Color'') (n + 6) (Idx 2),
      mk_link (n + 5, Name ''Result'') (n + 6) (Name ''Fac'')]"

definition is_sink :: "node \<Rightarrow> bool" where
  "is_sink nd \<longleftrightarrow>
     bl_idname nd = ShaderNodeBsdfPrincipled \<or> bl_idname nd = ShaderNodeOutputMaterial"

definition agrees :: "node_tree \<Rightarrow> node_tree \<Rightarrow> bool" where
  "agrees nt nt' \<longleftrightarrow>
     length (nodes nt) \<le> length (nodes nt') \<and>
     (\<forall>n < length (nodes nt).
        nodes nt' ! n = nodes nt ! n \<and>
        (is_sink (nodes nt ! n) \<or>
         (\<forall>i. link_into (nodes nt') (links nt') n i = link_into (nodes nt) (links nt) n i)))"

definition links_ok :: "nat \<Rightarrow> link list \<Rightarrow> bool" where
  "links_ok m ls \<longleftrightarrow> list_all (\<lambda>l. to_node l < m) ls"

definition base3 :: "nat \<Rightarrow> node list" where
  "base3 img =
     [(new_node ShaderNodeOutputMaterial)\<lparr>location := (900, 0)\<rparr>,
      (new_node ShaderNodeBsdfPrincipled)\<lparr>location := (600, 0)\<rparr>,
      (new_node ShaderNodeTexImage)\<lparr>location := (-800, 0), image := Some img\<rparr>]"

section \<open>The loop body, written out\<close>

lemma nodes_new_expl:
  "nodes_new k \<lparr>nodes = xs, links = ls\<rparr> = (length xs, \<lparr>nodes = xs @ [new_node k], links = ls\<rparr>)"
  by (simp add: nodes_new_def)

lemma upd0: "upd_node (length xs) f \<lparr>nodes = xs @ a # ys, links = ls\<rparr>
   = \<lparr>nodes = xs @ f a # ys, links = ls\<rparr>"
  by (simp add: upd_node_def)

lemma upd1: "upd_node (Suc (length xs)) f \<lparr>nodes = xs @ a # b # ys, links = ls\<rparr>
   = \<lparr>nodes = xs @ a # f b # ys, links = ls\<rparr>"
  using upd0[of "xs @ [a]" f b ys ls] by simp

lemma upd2: "upd_node (Suc (Suc (length xs))) f \<lparr>nodes = xs @ a # b # c # ys, links = ls\<rparr>
   = \<lparr>nodes = xs @ a # b # f c # ys, links = ls\<rparr>"
  using upd0[of "xs @ [a, b]" f c ys ls] by simp

lemma upd3: "upd_node (Suc (Suc (Suc (length xs)))) f \<lparr>nodes = xs @ a # b # c # d # ys, links = ls\<rparr>
   = \<lparr>nodes = xs @ a # b # c # f d # ys, links = ls\<rparr>"
  using upd0[of "xs @ [a, b, c]" f d ys ls] by simp

lemma upd4: "upd_node (Suc (Suc (Suc (Suc (length xs))))) f \<lparr>nodes = xs @ a # b # c # d # e # ys, links = ls\<rparr>
   = \<lparr>nodes = xs @ a # b # c # d # f e # ys, links = ls\<rparr>"
  using upd0[of "xs @ [a, b, c, d]" f e ys ls] by simp

lemma upd5: "upd_node (Suc (Suc (Suc (Suc (Suc (length xs)))))) f \<lparr>nodes = xs @ a # b # c # d # e # g # ys, links = ls\<rparr>
   = \<lparr>nodes = xs @ a # b # c # d # e # f g # ys, links = ls\<rparr>"
  using upd0[of "xs @ [a, b, c, d, e]" f g ys ls] by simp

lemma upd6: "upd_node (Suc (Suc (Suc (Suc (Suc (Suc (length xs))))))) f \<lparr>nodes = xs @ a # b # c # d # e # g # h # ys, links = ls\<rparr>
   = \<lparr>nodes = xs @ a # b # c # d # e # g # f h # ys, links = ls\<rparr>"
  using upd0[of "xs @ [a, b, c, d, e, g]" f h ys ls] by simp

lemmas upds = upd0 upd1 upd2 upd3 upd4 upd5 upd6

lemma links_new_expl:
  "links_new src dst \<lparr>nodes = ns, links = ls\<rparr> =
     \<lparr>nodes = ns, links = ls @
        [\<lparr>from_node = fst src, from_socket = snd src, to_node = fst dst, to_socket = snd dst\<rparr>]\<rparr>"
  by (simp add: links_new_def)

lemma remap_step_expl:
  "remap_step i (s, t) tol (\<lparr>nodes = xs, links = ls\<rparr>, prev) =
     (\<lparr>nodes = xs @ pair_nodes i s t tol,
       links = ls @ pair_links (length xs) prev\<rparr>,
      (length xs + 6, Name ''Color''))"
  by (simp add: remap_step_def nodes_new_expl links_new_expl upds set_location_def
      set_operation_def set_input_default_def set_output_default_def
      pair_nodes_def pair_links_def mk_link_def new_node_def set_default_def Let_def)

section \<open>Evaluation is stable under growth of the tree\<close>

lemma link_into_append:
  "link_into ns (xs @ ys) n i =
     (case link_into ns ys n i of Some l \<Rightarrow> Some l | None \<Rightarrow> link_into ns xs n i)"
  by (induction xs) (auto split: option.splits)

lemma node_output_sink: "is_sink nd \<Longrightarrow> node_output nd k inp tex = None"
  by (auto simp: is_sink_def node_output_def)

lemma the_float_Some: "the_float x = Some a \<longleftrightarrow> x = Some (Float a)"
  by (cases x rule: the_float.cases) auto

lemma the_rgba_Some: "the_rgba x = Some a \<longleftrightarrow> x = Some (RGBA a)"
  by (cases x rule: the_rgba.cases) auto

lemma node_output_mono:
  assumes "node_output nd k inp tex = Some v"
    and "\<And>i w. inp i = Some w \<Longrightarrow> inp' i = Some w"
  shows "node_output nd k inp' tex = Some v"
proof (cases "bl_idname nd")
  case ShaderNodeVectorMath
  with assms(1) show ?thesis
    by (auto simp: node_output_def the_rgba_Some split: if_splits option.splits dest!: assms(2))
next
  case ShaderNodeMath
  with assms(1) show ?thesis
    by (auto simp: node_output_def the_float_Some split: if_splits option.splits dest!: assms(2))
next
  case ShaderNodeClamp
  with assms(1) show ?thesis
    by (auto simp: node_output_def the_float_Some split: if_splits option.splits dest!: assms(2))
next
  case ShaderNodeMixRGB
  with assms(1) show ?thesis
    by (auto simp: node_output_def the_float_Some the_rgba_Some
        split: if_splits option.splits dest!: assms(2))
qed (use assms(1) in \<open>auto simp: node_output_def split: if_splits option.splits\<close>)

lemma eval_socket_mono:
  "agrees nt nt' \<Longrightarrow> f \<le> f' \<Longrightarrow> eval_socket f nt tex n k = Some v \<Longrightarrow>
   eval_socket f' nt' tex n k = Some v"
proof (induction f arbitrary: f' n k v)
  case 0
  then show ?case by simp
next
  case (Suc f)
  then obtain g where f': "f' = Suc g" and fg: "f \<le> g" by (cases f') auto
  from Suc.prems(3) have n: "n < length (nodes nt)" by (simp split: if_splits)
  with Suc.prems(1) have n': "n < length (nodes nt')" and same: "nodes nt' ! n = nodes nt ! n"
    by (auto simp: agrees_def)
  from Suc.prems(3) n obtain j where
    j: "socket_index (outputs (nodes nt ! n)) k = Some j" and
    out: "node_output (nodes nt ! n) j
            (\<lambda>i. case link_into (nodes nt) (links nt) n i of
                   Some l \<Rightarrow> eval_socket f nt tex (from_node l) (from_socket l)
                 | None \<Rightarrow> (if i < length (inputs (nodes nt ! n))
                     then Some (snd (inputs (nodes nt ! n) ! i)) else None)) tex = Some v"
    by (auto split: option.splits)
  from out have "\<not> is_sink (nodes nt ! n)" using node_output_sink by fastforce
  with Suc.prems(1) n have lk:
    "\<And>i. link_into (nodes nt') (links nt') n i = link_into (nodes nt) (links nt) n i"
    by (auto simp: agrees_def)
  have "node_output (nodes nt ! n) j
            (\<lambda>i. case link_into (nodes nt) (links nt) n i of
                   Some l \<Rightarrow> eval_socket g nt' tex (from_node l) (from_socket l)
                 | None \<Rightarrow> (if i < length (inputs (nodes nt ! n))
                     then Some (snd (inputs (nodes nt ! n) ! i)) else None)) tex = Some v"
    by (rule node_output_mono[OF out])
       (auto split: option.splits if_splits intro: Suc.IH[OF Suc.prems(1) fg])
  then show ?case using n' same j lk by (simp add: f' cong: option.case_cong if_cong)
qed

lemma link_into_fresh: "links_ok m ls \<Longrightarrow> m \<le> n \<Longrightarrow> link_into ns ls n i = None"
  by (induction ls) (auto simp: links_ok_def)

lemma link_into_cong_nodes: "ns ! n = ns' ! n \<Longrightarrow> link_into ns ls n i = link_into ns' ls n i"
  by (induction ls) (auto split: option.splits)

lemma links_ok_pair: "links_ok (n + 7) (pair_links n prev)"
  by (simp add: links_ok_def pair_links_def mk_link_def)

lemma links_ok_mono: "links_ok m ls \<Longrightarrow> m \<le> m' \<Longrightarrow> links_ok m' ls"
  by (induction ls) (auto simp: links_ok_def)

lemma links_ok_append: "links_ok m (xs @ ys) \<longleftrightarrow> links_ok m xs \<and> links_ok m ys"
  by (simp add: links_ok_def)

lemma pair_links_old: "n < m \<Longrightarrow> link_into ns (pair_links m prev) n i = None"
  by (simp add: pair_links_def mk_link_def)

lemma length_pair_nodes: "length (pair_nodes i s t tol) = 7"
  by (simp add: pair_nodes_def)

lemma agrees_step:
  "links_ok (length xs) ls \<Longrightarrow>
   agrees \<lparr>nodes = xs, links = ls\<rparr>
          \<lparr>nodes = xs @ pair_nodes i s t tol, links = ls @ pair_links (length xs) prev\<rparr>"
  by (auto simp: agrees_def link_into_append pair_links_old nth_append
      intro: link_into_cong_nodes)

lemma spec_clamp_01: "spec_clamp x 0 1 = min (max x 0) 1"
  by (simp add: spec_clamp_def)

section \<open>What each node type evaluates to\<close>

lemma eval_socket_Suc:
  "eval_socket (Suc g) nt tex n k =
     (if n < length (nodes nt) then
        (case socket_index (outputs (nodes nt ! n)) k of
           None \<Rightarrow> None
         | Some j \<Rightarrow> node_output (nodes nt ! n) j (eval_input g nt tex n) tex)
      else None)"
proof -
  have "eval_input g nt tex n =
     (\<lambda>i. case link_into (nodes nt) (links nt) n i of
            Some l \<Rightarrow> eval_socket g nt tex (from_node l) (from_socket l)
          | None \<Rightarrow> (if i < length (inputs (nodes nt ! n))
                     then Some (snd (inputs (nodes nt ! n) ! i)) else None))"
    by (rule ext) (simp add: eval_input_def)
  then show ?thesis by (simp split: option.splits)
qed

lemma eval_input_link:
  "link_into (nodes nt) (links nt) n i = Some l \<Longrightarrow>
   eval_input g nt tex n i = eval_socket g nt tex (from_node l) (from_socket l)"
  by (simp add: eval_input_def)

lemma eval_input_default:
  "link_into (nodes nt) (links nt) n i = None \<Longrightarrow> inputs (nodes nt ! n) ! i = (nm, v) \<Longrightarrow>
   i < length (inputs (nodes nt ! n)) \<Longrightarrow> eval_input g nt tex n i = Some v"
  by (simp add: eval_input_def)

lemma eval_tex:
  assumes "n < length (nodes nt)" "bl_idname (nodes nt ! n) = ShaderNodeTexImage"
    "outputs (nodes nt ! n) = default_outputs ShaderNodeTexImage"
    "image (nodes nt ! n) = Some im"
  shows "eval_socket (Suc g) nt tex n (Name ''Color'') = Some (RGBA (tex im))"
  using assms by (simp add: eval_socket_Suc node_output_def del: eval_socket.simps)

lemma eval_rgb:
  assumes "n < length (nodes nt)" "bl_idname (nodes nt ! n) = ShaderNodeRGB"
    "outputs (nodes nt ! n) = [(''Color'', v)]"
  shows "eval_socket (Suc g) nt tex n (Name ''Color'') = Some v"
  using assms by (simp add: eval_socket_Suc node_output_def del: eval_socket.simps)

lemma eval_distance:
  assumes "n < length (nodes nt)" "bl_idname (nodes nt ! n) = ShaderNodeVectorMath"
    "operation (nodes nt ! n) = DISTANCE"
    "outputs (nodes nt ! n) = default_outputs ShaderNodeVectorMath"
    "eval_input g nt tex n 0 = Some (RGBA a)" "eval_input g nt tex n 1 = Some (RGBA b)"
  shows "eval_socket (Suc g) nt tex n (Name ''Value'') = Some (Float (color_distance a b))"
  using assms by (simp add: eval_socket_Suc node_output_def del: eval_socket.simps)

lemma eval_math:
  assumes "n < length (nodes nt)" "bl_idname (nodes nt ! n) = ShaderNodeMath"
    "outputs (nodes nt ! n) = default_outputs ShaderNodeMath"
    "eval_input g nt tex n 0 = Some (Float a)" "eval_input g nt tex n 1 = Some (Float b)"
  shows "eval_socket (Suc g) nt tex n (Name ''Value'')
           = map_option Float (math_op (operation (nodes nt ! n)) a b)"
  using assms by (simp add: eval_socket_Suc node_output_def del: eval_socket.simps)

lemma eval_clamp:
  assumes "n < length (nodes nt)" "bl_idname (nodes nt ! n) = ShaderNodeClamp"
    "outputs (nodes nt ! n) = default_outputs ShaderNodeClamp"
    "eval_input g nt tex n 0 = Some (Float v)" "eval_input g nt tex n 1 = Some (Float lo)"
    "eval_input g nt tex n 2 = Some (Float hi)"
  shows "eval_socket (Suc g) nt tex n (Name ''Result'') = Some (Float (min (max v lo) hi))"
  using assms by (simp add: eval_socket_Suc node_output_def del: eval_socket.simps)

lemma eval_mix:
  assumes "n < length (nodes nt)" "bl_idname (nodes nt ! n) = ShaderNodeMixRGB"
    "outputs (nodes nt ! n) = default_outputs ShaderNodeMixRGB"
    "eval_input g nt tex n 0 = Some (Float fac)" "eval_input g nt tex n 1 = Some (RGBA a)"
    "eval_input g nt tex n 2 = Some (RGBA b)"
  shows "eval_socket (Suc g) nt tex n (Name ''Color'') = Some (RGBA (lerp a b fac))"
  using assms by (simp add: eval_socket_Suc node_output_def del: eval_socket.simps)

section \<open>One pass of the loop, and the whole loop\<close>

lemma pair_nodes_nth:
  "pair_nodes i s t tol ! 0 = \<lparr>bl_idname = ShaderNodeRGB, location = (-600, 200 - int i * 250),
       operation = ADD, image = None, inputs = [], outputs = [(''Color'', RGBA s)]\<rparr>"
  "pair_nodes i s t tol ! 1 = \<lparr>bl_idname = ShaderNodeRGB, location = (-600, -100 - int i * 250),
       operation = ADD, image = None, inputs = [], outputs = [(''Color'', RGBA t)]\<rparr>"
  "pair_nodes i s t tol ! 2 = \<lparr>bl_idname = ShaderNodeVectorMath,
       location = (-350, 50 - int i * 250), operation = DISTANCE, image = None,
       inputs = default_inputs ShaderNodeVectorMath,
       outputs = default_outputs ShaderNodeVectorMath\<rparr>"
  "pair_nodes i s t tol ! 3 = \<lparr>bl_idname = ShaderNodeMath, location = (-100, 50 - int i * 250),
       operation = DIVIDE, image = None,
       inputs = [(''Value'', Float (1/2)), (''Value'', Float (max tol (1/100000))),
                 (''Value'', Float (1/2))],
       outputs = default_outputs ShaderNodeMath\<rparr>"
  "pair_nodes i s t tol ! 4 = \<lparr>bl_idname = ShaderNodeMath, location = (150, 50 - int i * 250),
       operation = SUBTRACT, image = None,
       inputs = [(''Value'', Float 1), (''Value'', Float (1/2)), (''Value'', Float (1/2))],
       outputs = default_outputs ShaderNodeMath\<rparr>"
  "pair_nodes i s t tol ! 5 = \<lparr>bl_idname = ShaderNodeClamp, location = (400, 50 - int i * 250),
       operation = ADD, image = None, inputs = default_inputs ShaderNodeClamp,
       outputs = default_outputs ShaderNodeClamp\<rparr>"
  "pair_nodes i s t tol ! 6 = \<lparr>bl_idname = ShaderNodeMixRGB,
       location = (250, -200 - int i * 250), operation = ADD, image = None,
       inputs = default_inputs ShaderNodeMixRGB, outputs = default_outputs ShaderNodeMixRGB\<rparr>"
  by (simp_all add: pair_nodes_def)

lemma pair_links_into:
  fixes ns :: "node list" and n :: nat
  assumes "\<And>k. k < 7 \<Longrightarrow> ns ! (n + k) = pair_nodes i s t tol ! k"
  shows "link_into ns (pair_links n prev) (n + 2) 0 = Some (mk_link prev (n + 2) (Idx 0))"
    "link_into ns (pair_links n prev) (n + 2) 1
       = Some (mk_link (n, Name ''Color'') (n + 2) (Idx 1))"
    "link_into ns (pair_links n prev) (n + 3) 0
       = Some (mk_link (n + 2, Name ''Value'') (n + 3) (Idx 0))"
    "link_into ns (pair_links n prev) (n + 3) 1 = None"
    "link_into ns (pair_links n prev) (n + 4) 0 = None"
    "link_into ns (pair_links n prev) (n + 4) 1
       = Some (mk_link (n + 3, Name ''Value'') (n + 4) (Idx 1))"
    "link_into ns (pair_links n prev) (n + 5) 0
       = Some (mk_link (n + 4, Name ''Value'') (n + 5) (Name ''Value''))"
    "link_into ns (pair_links n prev) (n + 5) 1 = None"
    "link_into ns (pair_links n prev) (n + 5) 2 = None"
    "link_into ns (pair_links n prev) (n + 6) 0
       = Some (mk_link (n + 5, Name ''Result'') (n + 6) (Name ''Fac''))"
    "link_into ns (pair_links n prev) (n + 6) 1 = Some (mk_link prev (n + 6) (Idx 1))"
    "link_into ns (pair_links n prev) (n + 6) 2
       = Some (mk_link (n + 1, Name ''Color'') (n + 6) (Idx 2))"
proof -
  have k: "ns ! (n + 2) = pair_nodes i s t tol ! 2" "ns ! (n + 3) = pair_nodes i s t tol ! 3"
    "ns ! (n + 4) = pair_nodes i s t tol ! 4" "ns ! (n + 5) = pair_nodes i s t tol ! 5"
    "ns ! (n + 6) = pair_nodes i s t tol ! 6"
    using assms[of 2] assms[of 3] assms[of 4] assms[of 5] assms[of 6] by simp_all
  note nd = k[unfolded pair_nodes_nth]
  show "link_into ns (pair_links n prev) (n + 2) 0 = Some (mk_link prev (n + 2) (Idx 0))"
    "link_into ns (pair_links n prev) (n + 2) 1
       = Some (mk_link (n, Name ''Color'') (n + 2) (Idx 1))"
    using nd(1) by (simp_all add: pair_links_def mk_link_def)
  show "link_into ns (pair_links n prev) (n + 3) 0
       = Some (mk_link (n + 2, Name ''Value'') (n + 3) (Idx 0))"
    "link_into ns (pair_links n prev) (n + 3) 1 = None"
    using nd(2) by (simp_all add: pair_links_def mk_link_def)
  show "link_into ns (pair_links n prev) (n + 4) 0 = None"
    "link_into ns (pair_links n prev) (n + 4) 1
       = Some (mk_link (n + 3, Name ''Value'') (n + 4) (Idx 1))"
    using nd(3) by (simp_all add: pair_links_def mk_link_def)
  show "link_into ns (pair_links n prev) (n + 5) 0
       = Some (mk_link (n + 4, Name ''Value'') (n + 5) (Name ''Value''))"
    "link_into ns (pair_links n prev) (n + 5) 1 = None"
    "link_into ns (pair_links n prev) (n + 5) 2 = None"
    using nd(4) by (simp_all add: pair_links_def mk_link_def)
  show "link_into ns (pair_links n prev) (n + 6) 0
       = Some (mk_link (n + 5, Name ''Result'') (n + 6) (Name ''Fac''))"
    "link_into ns (pair_links n prev) (n + 6) 1 = Some (mk_link prev (n + 6) (Idx 1))"
    "link_into ns (pair_links n prev) (n + 6) 2
       = Some (mk_link (n + 1, Name ''Color'') (n + 6) (Idx 2))"
    using nd(5) by (simp_all add: pair_links_def mk_link_def)
qed

lemma eval_step:
  assumes ok: "links_ok (length xs) ls"
    and prev: "eval_socket f \<lparr>nodes = xs, links = ls\<rparr> tex (fst prev) (snd prev) = Some (RGBA c)"
  shows "eval_socket (f + 1)
           \<lparr>nodes = xs @ pair_nodes i s t tol, links = ls @ pair_links (length xs) prev\<rparr>
           tex (length xs + 2) (Name ''Value'') = Some (Float (color_distance c s))"
    and "eval_socket (f + 5)
           \<lparr>nodes = xs @ pair_nodes i s t tol, links = ls @ pair_links (length xs) prev\<rparr>
           tex (length xs + 6) (Name ''Color'') = Some (RGBA (spec_next c (s, t) tol))"
proof -
  define n where "n = length xs"
  define nt where
    "nt = \<lparr>nodes = xs @ pair_nodes i s t tol, links = ls @ pair_links n prev\<rparr>"
  define m where "m k = n + k" for k
  have nth: "nodes nt ! (n + k) = pair_nodes i s t tol ! k" for k
    by (simp add: nt_def n_def)
  have len: "m k < length (nodes nt)" if "k < 7" for k
    using that by (simp add: nt_def n_def m_def length_pair_nodes)
  have lk: "link_into (nodes nt) (links nt) (n + k) j
              = link_into (nodes nt) (pair_links n prev) (n + k) j" for k j
    using link_into_fresh[OF ok, of "n + k" "nodes nt" j]
    by (simp add: nt_def n_def link_into_append split: option.splits)
  note L = pair_links_into[of "nodes nt" n i s t tol prev, OF nth, folded lk, folded m_def]
  note N = pair_nodes_nth[of i s t tol, folded nth, folded m_def]
  have f: "0 < f" using prev by (cases f) auto
  have p: "eval_socket g nt tex (fst prev) (snd prev) = Some (RGBA c)" if "f \<le> g" for g
    using eval_socket_mono[OF agrees_step[OF ok] that prev] by (simp add: nt_def n_def)
  have src: "eval_socket g nt tex (m 0) (Name ''Color'') = Some (RGBA s)" if g: "0 < g" for g
  proof -
    obtain g' where g': "g = Suc g'" using g by (cases g) auto
    have "eval_socket (Suc g') nt tex (m 0) (Name ''Color'') = Some (RGBA s)"
      by (rule eval_rgb) (simp_all add: len N)
    then show ?thesis by (simp only: g')
  qed
  have tgt: "eval_socket g nt tex (m 1) (Name ''Color'') = Some (RGBA t)" if g: "0 < g" for g
  proof -
    obtain g' where g': "g = Suc g'" using g by (cases g) auto
    have "eval_socket (Suc g') nt tex (m 1) (Name ''Color'') = Some (RGBA t)"
      by (rule eval_rgb) (simp_all add: len N del: One_nat_def)
    then show ?thesis by (simp only: g')
  qed
  have m0: "m 0 = n" by (simp add: m_def)
  have d: "eval_socket (Suc f) nt tex (m 2) (Name ''Value'')
             = Some (Float (color_distance c s))"
  proof (rule eval_distance)
    show "eval_input f nt tex (m 2) 0 = Some (RGBA c)"
      using eval_input_link[OF L(1), of f tex] p[of f] by (simp add: mk_link_def)
    show "eval_input f nt tex (m 2) 1 = Some (RGBA s)"
      using eval_input_link[OF L(2), of f tex] src[OF f] by (simp add: mk_link_def m0)
  qed (simp_all add: len N)
  have q: "eval_socket (Suc (Suc f)) nt tex (m 3) (Name ''Value'')
             = Some (Float (color_distance c s / max tol (1/100000)))"
  proof -
    have "eval_input (Suc f) nt tex (m 3) 0 = Some (Float (color_distance c s))"
      using eval_input_link[OF L(3), of "Suc f" tex] d by (simp add: mk_link_def)
    moreover have "eval_input (Suc f) nt tex (m 3) 1 = Some (Float (max tol (1/100000)))"
      by (rule eval_input_default[OF L(4)]) (simp_all add: N)
    ultimately show ?thesis
      using eval_math[of "m 3" nt "Suc f" tex "color_distance c s" "max tol (1/100000)"]
      by (simp add: len N)
  qed
  have e: "eval_socket (Suc (Suc (Suc f))) nt tex (m 4) (Name ''Value'')
             = Some (Float (1 - color_distance c s / max tol (1/100000)))"
  proof -
    have "eval_input (Suc (Suc f)) nt tex (m 4) 0 = Some (Float 1)"
      by (rule eval_input_default[OF L(5)]) (simp_all add: N)
    moreover have "eval_input (Suc (Suc f)) nt tex (m 4) 1
        = Some (Float (color_distance c s / max tol (1/100000)))"
      using eval_input_link[OF L(6), of "Suc (Suc f)" tex] q
      by (simp add: mk_link_def)
    ultimately show ?thesis
      using eval_math[of "m 4" nt "Suc (Suc f)" tex 1
          "color_distance c s / max tol (1/100000)"]
      by (simp add: len N)
  qed
  have cl: "eval_socket (Suc (Suc (Suc (Suc f)))) nt tex (m 5) (Name ''Result'')
             = Some (Float (spec_blend_factor c s tol))"
  proof -
    have "eval_input (Suc (Suc (Suc f))) nt tex (m 5) 0
        = Some (Float (1 - color_distance c s / max tol (1/100000)))"
      using eval_input_link[OF L(7), of "Suc (Suc (Suc f))" tex] e
      by (simp add: mk_link_def)
    moreover have "eval_input (Suc (Suc (Suc f))) nt tex (m 5) 1 = Some (Float 0)"
      by (rule eval_input_default[OF L(8)]) (simp_all add: N)
    moreover have "eval_input (Suc (Suc (Suc f))) nt tex (m 5) 2 = Some (Float 1)"
      by (rule eval_input_default[OF L(9)]) (simp_all add: N)
    ultimately show ?thesis
      using eval_clamp[of "m 5" nt "Suc (Suc (Suc f))" tex
          "1 - color_distance c s / max tol (1/100000)" 0 1]
      by (simp add: len N spec_blend_factor_def spec_clamp_01 spec_epsilon_def)
  qed
  have "eval_socket (Suc (Suc (Suc (Suc (Suc f))))) nt tex (m 6) (Name ''Color'')
             = Some (RGBA (lerp c t (spec_blend_factor c s tol)))"
  proof (rule eval_mix)
    show "eval_input (Suc (Suc (Suc (Suc f)))) nt tex (m 6) 0
        = Some (Float (spec_blend_factor c s tol))"
      using eval_input_link[OF L(10), of "Suc (Suc (Suc (Suc f)))" tex] cl
      by (simp add: mk_link_def)
    show "eval_input (Suc (Suc (Suc (Suc f)))) nt tex (m 6) 1 = Some (RGBA c)"
      using eval_input_link[OF L(11), of "Suc (Suc (Suc (Suc f)))" tex]
        p[of "Suc (Suc (Suc (Suc f)))"]
      by (simp add: mk_link_def)
    show "eval_input (Suc (Suc (Suc (Suc f)))) nt tex (m 6) 2 = Some (RGBA t)"
      using eval_input_link[OF L(12), of "Suc (Suc (Suc (Suc f)))" tex]
        tgt[of "Suc (Suc (Suc (Suc f)))"]
      by (simp add: mk_link_def del: One_nat_def)
  qed (simp_all add: len N)
  moreover have "f + 5 = Suc (Suc (Suc (Suc (Suc f))))" by simp
  ultimately show "eval_socket (f + 5)
           \<lparr>nodes = xs @ pair_nodes i s t tol, links = ls @ pair_links (length xs) prev\<rparr>
           tex (length xs + 6) (Name ''Color'') = Some (RGBA (spec_next c (s, t) tol))"
    by (simp only: nt_def n_def m_def spec_next_def fst_conv snd_conv)
  have "f + 1 = Suc f" by simp
  with d show "eval_socket (f + 1)
           \<lparr>nodes = xs @ pair_nodes i s t tol, links = ls @ pair_links (length xs) prev\<rparr>
           tex (length xs + 2) (Name ''Value'') = Some (Float (color_distance c s))"
    by (simp only: nt_def n_def m_def)
qed

lemma eval_loop:
  assumes "links_ok (length xs) ls"
    and "eval_socket f \<lparr>nodes = xs, links = ls\<rparr> tex (fst prev) (snd prev) = Some (RGBA c)"
  shows "\<exists>ys ls' prev'.
           remap_loop i ps tol (\<lparr>nodes = xs, links = ls\<rparr>, prev)
             = (\<lparr>nodes = xs @ ys, links = ls'\<rparr>, prev') \<and>
           length ys = 7 * length ps \<and>
           links_ok (length xs + length ys) ls' \<and>
           eval_socket (f + 5 * length ps) \<lparr>nodes = xs @ ys, links = ls'\<rparr> tex
             (fst prev') (snd prev') = Some (RGBA (spec_chain c ps tol))"
  using assms
proof (induction ps arbitrary: i xs ls prev c f)
  case Nil
  then show ?case by simp
next
  case (Cons p ps)
  obtain s t where p: "p = (s, t)" by (cases p)
  let ?xs = "xs @ pair_nodes i s t tol"
  let ?ls = "ls @ pair_links (length xs) prev"
  let ?prev = "(length xs + 6, Name ''Color'')"
  have ok: "links_ok (length ?xs) ?ls"
    using Cons.prems(1) links_ok_pair[of "length xs" prev]
    by (auto simp: links_ok_append length_pair_nodes intro: links_ok_mono)
  have ev: "eval_socket (f + 5) \<lparr>nodes = ?xs, links = ?ls\<rparr> tex (fst ?prev) (snd ?prev)
              = Some (RGBA (spec_next c (s, t) tol))"
    using eval_step(2)[OF Cons.prems] by simp
  from Cons.IH[OF ok ev, of "Suc i"] obtain ys ls' prev' where
    r: "remap_loop (Suc i) ps tol (\<lparr>nodes = ?xs, links = ?ls\<rparr>, ?prev)
          = (\<lparr>nodes = ?xs @ ys, links = ls'\<rparr>, prev')"
    and l: "length ys = 7 * length ps"
    and o: "links_ok (length ?xs + length ys) ls'"
    and e: "eval_socket (f + 5 + 5 * length ps) \<lparr>nodes = ?xs @ ys, links = ls'\<rparr> tex
             (fst prev') (snd prev') = Some (RGBA (spec_chain (spec_next c (s, t) tol) ps tol))"
    by blast
  have "remap_loop i (p # ps) tol (\<lparr>nodes = xs, links = ls\<rparr>, prev)
          = (\<lparr>nodes = xs @ (pair_nodes i s t tol @ ys), links = ls'\<rparr>, prev')"
    using r by (simp add: p remap_step_expl)
  moreover have "length (pair_nodes i s t tol @ ys) = 7 * length (p # ps)"
    using l by (simp add: length_pair_nodes)
  moreover have "links_ok (length xs + length (pair_nodes i s t tol @ ys)) ls'"
    using o by (simp add: add.assoc)
  moreover have "eval_socket (f + 5 * length (p # ps))
       \<lparr>nodes = xs @ (pair_nodes i s t tol @ ys), links = ls'\<rparr> tex
             (fst prev') (snd prev') = Some (RGBA (spec_chain c (p # ps) tol))"
    using e by (simp add: p add.assoc add.commute)
  ultimately show ?case by blast
qed

lemma base_nodes_expl:
  "base_nodes img \<lparr>nodes = [], links = []\<rparr> = (\<lparr>nodes = base3 img, links = []\<rparr>, 0, 1, 2)"
  using upd0[of "[]"] upd1[of "[]"] upd2[of "[]"]
  by (simp add: base_nodes_def nodes_new_expl set_image_def set_location_def base3_def)

lemma build_remap_tree_expl:
  "\<exists>ys ls prev.
     build_remap_tree img ps tol =
       \<lparr>nodes = base3 img @ ys,
        links = ls @ [mk_link prev 1 (Name ''Base Color''),
                      mk_link (1, Name ''BSDF'') 0 (Name ''Surface'')]\<rparr> \<and>
     length ys = 7 * length ps \<and>
     links_ok (3 + length ys) ls \<and>
     eval_socket (1 + 5 * length ps) \<lparr>nodes = base3 img @ ys, links = ls\<rparr> tex
       (fst prev) (snd prev) = Some (RGBA (spec_chain (tex img) ps tol))"
proof -
  have len3: "length (base3 img) = 3" by (simp add: base3_def)
  have ok: "links_ok (length (base3 img)) []" by (simp add: links_ok_def)
  have "eval_socket (Suc 0) \<lparr>nodes = base3 img, links = []\<rparr> tex 2 (Name ''Color'')
          = Some (RGBA (tex img))"
    by (rule eval_tex) (simp_all add: base3_def new_node_def)
  then have ev: "eval_socket 1 \<lparr>nodes = base3 img, links = []\<rparr> tex
      (fst (2, Name ''Color'')) (snd (2, Name ''Color'')) = Some (RGBA (tex img))"
    by simp
  from eval_loop[OF ok ev, of 0 ps tol] obtain ys ls prev where
    r: "remap_loop 0 ps tol (\<lparr>nodes = base3 img, links = []\<rparr>, (2, Name ''Color''))
          = (\<lparr>nodes = base3 img @ ys, links = ls\<rparr>, prev)"
    and l: "length ys = 7 * length ps"
    and o: "links_ok (length (base3 img) + length ys) ls"
    and e: "eval_socket (1 + 5 * length ps) \<lparr>nodes = base3 img @ ys, links = ls\<rparr> tex
             (fst prev) (snd prev) = Some (RGBA (spec_chain (tex img) ps tol))"
    by blast
  have "build_remap_tree img ps tol =
       \<lparr>nodes = base3 img @ ys,
        links = ls @ [mk_link prev 1 (Name ''Base Color''),
                      mk_link (1, Name ''BSDF'') 0 (Name ''Surface'')]\<rparr>"
    by (simp add: build_remap_tree_def nodes_clear_def default_node_tree_def base_nodes_expl
        r links_new_expl mk_link_def)
  then show ?thesis using l o[unfolded len3] e by blast
qed

lemma base_color_build:
  "base_color (build_remap_tree img ps tol) tex = Some (spec_chain (tex img) ps tol)"
proof -
  obtain ys ls prev where
    b: "build_remap_tree img ps tol =
       \<lparr>nodes = base3 img @ ys,
        links = ls @ [mk_link prev 1 (Name ''Base Color''),
                      mk_link (1, Name ''BSDF'') 0 (Name ''Surface'')]\<rparr>"
    and l: "length ys = 7 * length ps"
    and e: "eval_socket (1 + 5 * length ps) \<lparr>nodes = base3 img @ ys, links = ls\<rparr> tex
       (fst prev) (snd prev) = Some (RGBA (spec_chain (tex img) ps tol))"
    using build_remap_tree_expl[of img ps tol tex] by blast
  define ns where "ns = base3 img @ ys"
  define l1 where "l1 = mk_link prev 1 (Name ''Base Color'')"
  define l2 where "l2 = mk_link (1, Name ''BSDF'') 0 (Name ''Surface'')"
  have n0: "ns ! 0 = (new_node ShaderNodeOutputMaterial)\<lparr>location := (900, 0)\<rparr>"
    and n1: "ns ! 1 = (new_node ShaderNodeBsdfPrincipled)\<lparr>location := (600, 0)\<rparr>"
    by (simp_all add: ns_def base3_def)
  have len: "length ns = 3 + 7 * length ps" by (simp add: ns_def base3_def l)
  have ag: "agrees \<lparr>nodes = ns, links = ls\<rparr> \<lparr>nodes = ns, links = ls @ [l1, l2]\<rparr>"
  proof -
    have "is_sink (ns ! n) \<or> link_into ns (ls @ [l1, l2]) n i = link_into ns ls n i" for n i
    proof (cases "n = 0 \<or> n = 1")
      case True
      then show ?thesis using n0 n1 by (auto simp: is_sink_def new_node_def)
    next
      case False
      then show ?thesis
        by (simp add: link_into_append l1_def l2_def mk_link_def)
    qed
    then show ?thesis by (auto simp: agrees_def)
  qed
  have ev: "eval_socket (length ns) \<lparr>nodes = ns, links = ls @ [l1, l2]\<rparr> tex
       (fst prev) (snd prev) = Some (RGBA (spec_chain (tex img) ps tol))"
    by (rule eval_socket_mono[OF ag _ e[folded ns_def]]) (simp add: len)
  have fn: "find_node ShaderNodeOutputMaterial ns = Some 0"
    by (simp add: ns_def base3_def new_node_def)
  have s: "link_into ns (ls @ [l1, l2]) 0 0 = Some l2"
    using n0 by (simp add: link_into_append l1_def l2_def mk_link_def new_node_def)
  have c: "link_into ns (ls @ [l1, l2]) 1 0 = Some l1"
    using n1 by (simp add: link_into_append l1_def l2_def mk_link_def new_node_def)
  have "eval_input (length ns) \<lparr>nodes = ns, links = ls @ [l1, l2]\<rparr> tex 1 0
          = Some (RGBA (spec_chain (tex img) ps tol))"
    using eval_input_link[of "\<lparr>nodes = ns, links = ls @ [l1, l2]\<rparr>" 1 0 l1 "length ns" tex]
      c ev by (simp add: l1_def mk_link_def)
  then have "base_color \<lparr>nodes = ns, links = ls @ [l1, l2]\<rparr> tex
          = Some (spec_chain (tex img) ps tol)"
    using fn s n0 n1 len
    by (simp add: base_color_def new_node_def l2_def mk_link_def)
  then show ?thesis by (simp only: b ns_def l1_def l2_def)
qed

section \<open>The function as a whole\<close>

lemma apply_color_remaps_success:
  assumes "src_image st b = Some img"
  shows "apply_color_remaps st (Some b) (Some v) ps tol =
     (Some (length (bpy_materials st)),
      st\<lparr>bpy_materials := bpy_materials st @
            [\<lparr>mat_name = obj_name (objects st ! v) @ ''_RemapMaterial'', use_nodes = True,
              mat_node_tree = build_remap_tree img ps tol\<rparr>],
         meshes := (meshes st)[data (objects st ! v) :=
            \<lparr>materials = [length (bpy_materials st)]\<rparr>]\<rparr>)"
proof -
  obtain m where m: "active_material st b = Some m"
    and i: "find_src_img (bpy_materials st ! m) = Some img"
    using assms by (auto simp: src_image_def split: option.splits)
  show ?thesis
  proof (cases "data (objects st ! v) < length (meshes st)")
    case True
    then show ?thesis
      by (simp add: apply_color_remaps_def m i materials_new_def materials_clear_def
          materials_append_def)
  next
    case False
    then show ?thesis
      by (simp add: apply_color_remaps_def m i materials_new_def materials_clear_def
          materials_append_def list_update_beyond not_less)
  qed
qed

lemma apply_color_remaps_failure:
  assumes "base_obj = None \<or> variant_obj = None \<or> (\<exists>b. base_obj = Some b \<and> src_image st b = None)"
  shows "apply_color_remaps st base_obj variant_obj ps tol = (None, st)"
  using assms
  by (auto simp: apply_color_remaps_def src_image_def split: option.splits)

lemma remap_color_eq:
  assumes "src_image st b = Some img"
  shows "remap_color st b v ps tol tex = Some (spec_chain (tex img) ps tol)"
  by (simp add: remap_color_def apply_color_remaps_success[OF assms] material_color_def
      base_color_build)

lemma base_material_tree_expl:
  "base_material_tree img =
     \<lparr>nodes = [(new_node ShaderNodeTexImage)\<lparr>location := (-400, 0), image := Some img\<rparr>,
               (new_node ShaderNodeBsdfPrincipled)\<lparr>location := (0, 0)\<rparr>,
               (new_node ShaderNodeOutputMaterial)\<lparr>location := (300, 0)\<rparr>],
      links = [mk_link (0, Name ''Color'') 1 (Name ''Base Color''),
               mk_link (1, Name ''BSDF'') 2 (Name ''Surface'')]\<rparr>"
  using upd0[of "[]"] upd1[of "[]"] upd2[of "[]"]
  by (simp add: base_material_tree_def nodes_clear_def default_node_tree_def nodes_new_expl
      set_image_def set_location_def links_new_expl mk_link_def)

lemma src_image_example: "src_image example_scene 0 = Some 0"
  by (simp add: src_image_def example_scene_def active_material_def find_src_img_def
      base_material_tree_expl new_node_def)

section \<open>Distance and blend factor\<close>

lemma color_distance_self: "color_distance c c = 0"
  by (cases c) simp


lemma color_distance_alpha: "color_distance (r, g, b, a1) (r, g, b, a2) = \<bar>a1 - a2\<bar>"
  by simp

lemma color_distance_nonneg: "0 \<le> color_distance c d"
  by (cases c; cases d) simp

lemma single_pair:
  "spec_next c (S, T) tol = lerp c T (spec_blend_factor c S tol)"
  by (simp add: spec_next_def)

lemma lerp_1: "lerp c T 1 = T"
  by (cases c; cases T) simp

lemma lerp_0: "lerp c T 0 = c"
  by (cases c; cases T) simp

lemma factor_exact: "spec_blend_factor S S tol = 1"
  by (simp add: spec_blend_factor_def color_distance_self spec_clamp_def)

lemma max_eps_pos: "0 < max tol spec_epsilon"
  by (simp add: spec_epsilon_def max_def)

lemma factor_far:
  assumes "max tol spec_epsilon \<le> color_distance c S"
  shows "spec_blend_factor c S tol = 0"
proof -
  have "1 \<le> color_distance c S / max tol spec_epsilon"
    using assms max_eps_pos[of tol] by (simp add: le_divide_eq)
  then show ?thesis by (simp add: spec_blend_factor_def spec_clamp_def)
qed

lemma factor_half:
  assumes "spec_epsilon \<le> tol" "color_distance c S = tol / 2"
  shows "spec_blend_factor c S tol = 1 / 2"
proof -
  have "0 < tol" using assms(1) by (simp add: spec_epsilon_def)
  then have "color_distance c S / max tol spec_epsilon = 1 / 2"
    using assms by (simp add: max_def)
  then show ?thesis by (simp add: spec_blend_factor_def spec_clamp_def)
qed

lemma remap_step_max:
  "remap_step i p tol s = remap_step i p (max tol (1/100000)) s"
  by (simp only: remap_step_def max.right_idem)

lemma remap_loop_max:
  "remap_loop i ps tol s = remap_loop i ps (max tol (1/100000)) s"
proof (induction ps arbitrary: i s)
  case Nil
  show ?case by simp
next
  case (Cons p ps)
  show ?case
    using Cons.IH[of "Suc i" "remap_step i p tol s"] remap_step_max[of i p tol s]
    by simp
qed

lemma build_remap_tree_max:
  "build_remap_tree img ps tol = build_remap_tree img ps (max tol (1/100000))"
  using remap_loop_max[of 0 ps tol]
  by (simp only: build_remap_tree_def)

lemma apply_color_remaps_max:
  "apply_color_remaps st bo vo ps tol = apply_color_remaps st bo vo ps (max tol (1/100000))"
  using build_remap_tree_max[of _ ps tol]
  by (simp only: apply_color_remaps_def)

lemma src_image_untextured: "src_image untextured_scene 0 = None"
  by (simp add: src_image_def untextured_scene_def active_material_def find_src_img_def)

lemma src_image_shared: "src_image shared_mesh_scene 0 = Some 0"
  by (simp add: src_image_def shared_mesh_scene_def active_material_def find_src_img_def
      base_material_tree_expl new_node_def)






section \<open>The distance node of each pair\<close>

lemma agrees_trans:
  assumes "agrees a b" "agrees b c"
  shows "agrees a c"
proof -
  have len: "length (nodes a) \<le> length (nodes c)"
    using assms by (auto simp: agrees_def)
  have "nodes c ! n = nodes a ! n \<and>
         (is_sink (nodes a ! n) \<or>
          (\<forall>i. link_into (nodes c) (links c) n i = link_into (nodes a) (links a) n i))"
    if n: "n < length (nodes a)" for n
  proof -
    have nb: "n < length (nodes b)" using assms(1) n by (auto simp: agrees_def)
    have ab: "nodes b ! n = nodes a ! n" using assms(1) n by (auto simp: agrees_def)
    have bc: "nodes c ! n = nodes b ! n" using assms(2) nb by (auto simp: agrees_def)
    have "is_sink (nodes a ! n) \<or>
         (\<forall>i. link_into (nodes c) (links c) n i = link_into (nodes a) (links a) n i)"
    proof (cases "is_sink (nodes a ! n)")
      case True
      then show ?thesis by simp
    next
      case False
      then have 1: "\<forall>i. link_into (nodes b) (links b) n i = link_into (nodes a) (links a) n i"
        using assms(1) n by (auto simp: agrees_def)
      from False ab have "\<not> is_sink (nodes b ! n)" by simp
      then have 2: "\<forall>i. link_into (nodes c) (links c) n i = link_into (nodes b) (links b) n i"
        using assms(2) nb by (auto simp: agrees_def)
      from 1 2 show ?thesis by simp
    qed
    with ab bc show ?thesis by simp
  qed
  with len show ?thesis unfolding agrees_def by blast
qed

lemma agrees_refl: "agrees a a"
  by (simp add: agrees_def)

lemma remap_loop_struct:
  assumes "links_ok (length xs) ls"
  shows "\<exists>ys ls' prev'.
           remap_loop i ps tol (\<lparr>nodes = xs, links = ls\<rparr>, prev)
             = (\<lparr>nodes = xs @ ys, links = ls'\<rparr>, prev') \<and>
           length ys = 7 * length ps \<and>
           agrees \<lparr>nodes = xs, links = ls\<rparr> \<lparr>nodes = xs @ ys, links = ls'\<rparr>"
  using assms
proof (induction ps arbitrary: i xs ls prev)
  case Nil
  then show ?case by (simp add: agrees_refl)
next
  case (Cons p ps)
  obtain s t where p: "p = (s, t)" by (cases p)
  let ?xs = "xs @ pair_nodes i s t tol"
  let ?ls = "ls @ pair_links (length xs) prev"
  let ?prev = "(length xs + 6, Name ''Color'')"
  have ok: "links_ok (length ?xs) ?ls"
    using Cons.prems(1) links_ok_pair[of "length xs" prev]
    by (auto simp: links_ok_append length_pair_nodes intro: links_ok_mono)
  from Cons.IH[OF ok, of "Suc i" ?prev] obtain ys ls' prev' where
    r: "remap_loop (Suc i) ps tol (\<lparr>nodes = ?xs, links = ?ls\<rparr>, ?prev)
          = (\<lparr>nodes = ?xs @ ys, links = ls'\<rparr>, prev')"
    and l: "length ys = 7 * length ps"
    and a: "agrees \<lparr>nodes = ?xs, links = ?ls\<rparr> \<lparr>nodes = ?xs @ ys, links = ls'\<rparr>"
    by blast
  have "remap_loop i (p # ps) tol (\<lparr>nodes = xs, links = ls\<rparr>, prev)
          = (\<lparr>nodes = xs @ (pair_nodes i s t tol @ ys), links = ls'\<rparr>, prev')"
    using r by (simp add: p remap_step_expl)
  moreover have "length (pair_nodes i s t tol @ ys) = 7 * length (p # ps)"
    using l by (simp add: length_pair_nodes)
  moreover have "agrees \<lparr>nodes = xs, links = ls\<rparr>
      \<lparr>nodes = xs @ (pair_nodes i s t tol @ ys), links = ls'\<rparr>"
    using agrees_trans[OF agrees_step[OF Cons.prems(1)] a] by simp
  ultimately show ?case by blast
qed

lemma remap_loop_append:
  "remap_loop i (ps @ qs) tol s = remap_loop (i + length ps) qs tol (remap_loop i ps tol s)"
  by (induction ps arbitrary: i s) simp_all

lemma agrees_final:
  assumes "is_sink (ns ! 0)" "is_sink (ns ! 1)" "to_node l1 = 1" "to_node l2 = 0"
  shows "agrees \<lparr>nodes = ns, links = ls\<rparr> \<lparr>nodes = ns, links = ls @ [l1, l2]\<rparr>"
proof -
  have "is_sink (ns ! n) \<or> link_into ns (ls @ [l1, l2]) n i = link_into ns ls n i" for n i
  proof (cases "n = 0 \<or> n = 1")
    case True
    then show ?thesis using assms by auto
  next
    case False
    then show ?thesis using assms by (simp add: link_into_append)
  qed
  then show ?thesis by (auto simp: agrees_def)
qed

lemma build_remap_tree_of_loop:
  assumes "remap_loop 0 ps tol (\<lparr>nodes = base3 img, links = []\<rparr>, (2, Name ''Color''))
          = (\<lparr>nodes = ns, links = ls\<rparr>, prev)"
  shows "build_remap_tree img ps tol =
       \<lparr>nodes = ns,
        links = ls @ [mk_link prev 1 (Name ''Base Color''),
                      mk_link (1, Name ''BSDF'') 0 (Name ''Surface'')]\<rparr>"
  by (simp add: build_remap_tree_def nodes_clear_def default_node_tree_def base_nodes_expl
      assms links_new_expl mk_link_def)

lemma dist_node_value:
  assumes i: "i < length ps"
  shows "eval_socket (length (nodes (build_remap_tree img ps tol)))
           (build_remap_tree img ps tol) tex (3 + 7 * i + 2) (Name ''Value'')
         = Some (Float (color_distance (spec_chain (tex img) (take i ps) tol) (fst (ps ! i))))"
    and "bl_idname (nodes (build_remap_tree img ps tol) ! (3 + 7 * i + 2)) = ShaderNodeVectorMath"
    and "operation (nodes (build_remap_tree img ps tol) ! (3 + 7 * i + 2)) = DISTANCE"
proof -
  obtain s t where p: "ps ! i = (s, t)" by (cases "ps ! i")
  define pre where "pre = take i ps"
  define post where "post = drop (Suc i) ps"
  have ps: "ps = pre @ (s, t) # post"
    using id_take_nth_drop[OF i] by (simp add: pre_def post_def p)
  have lpre: "length pre = i" using i by (simp add: pre_def)
  have len3: "length (base3 img) = 3" by (simp add: base3_def)
  have ok: "links_ok (length (base3 img)) []" by (simp add: links_ok_def)
  have "eval_socket (Suc 0) \<lparr>nodes = base3 img, links = []\<rparr> tex 2 (Name ''Color'')
          = Some (RGBA (tex img))"
    by (rule eval_tex) (simp_all add: base3_def new_node_def)
  then have ev: "eval_socket 1 \<lparr>nodes = base3 img, links = []\<rparr> tex
      (fst (2, Name ''Color'')) (snd (2, Name ''Color'')) = Some (RGBA (tex img))"
    by simp
  from eval_loop[OF ok ev, of 0 pre tol] obtain ys1 ls1 prev1 where
    r1: "remap_loop 0 pre tol (\<lparr>nodes = base3 img, links = []\<rparr>, (2, Name ''Color''))
          = (\<lparr>nodes = base3 img @ ys1, links = ls1\<rparr>, prev1)"
    and l1: "length ys1 = 7 * length pre"
    and o1: "links_ok (length (base3 img) + length ys1) ls1"
    and e1: "eval_socket (1 + 5 * length pre) \<lparr>nodes = base3 img @ ys1, links = ls1\<rparr> tex
             (fst prev1) (snd prev1) = Some (RGBA (spec_chain (tex img) pre tol))"
    by blast
  let ?xs = "base3 img @ ys1"
  let ?B = "\<lparr>nodes = ?xs @ pair_nodes i s t tol, links = ls1 @ pair_links (length ?xs) prev1\<rparr>"
  have o1': "links_ok (length ?xs) ls1" using o1 by simp
  have d: "eval_socket (1 + 5 * length pre + 1) ?B tex (length ?xs + 2) (Name ''Value'')
      = Some (Float (color_distance (spec_chain (tex img) pre tol) s))"
    by (rule eval_step(1)[OF o1' e1])
  have okB: "links_ok (length (?xs @ pair_nodes i s t tol)) (ls1 @ pair_links (length ?xs) prev1)"
    using o1' links_ok_pair[of "length ?xs" prev1]
    by (auto simp: links_ok_append length_pair_nodes intro: links_ok_mono)
  from remap_loop_struct[OF okB, of "Suc i" post tol "(length ?xs + 6, Name ''Color'')"]
  obtain ys3 ls3 prev3 where
    r3: "remap_loop (Suc i) post tol (?B, (length ?xs + 6, Name ''Color''))
          = (\<lparr>nodes = (?xs @ pair_nodes i s t tol) @ ys3, links = ls3\<rparr>, prev3)"
    and l3: "length ys3 = 7 * length post"
    and a3: "agrees ?B \<lparr>nodes = (?xs @ pair_nodes i s t tol) @ ys3, links = ls3\<rparr>"
    by blast
  define ns where "ns = (?xs @ pair_nodes i s t tol) @ ys3"
  have loop: "remap_loop 0 ps tol (\<lparr>nodes = base3 img, links = []\<rparr>, (2, Name ''Color''))
      = (\<lparr>nodes = ns, links = ls3\<rparr>, prev3)"
    using r3 by (simp add: ps remap_loop_append r1 lpre remap_step_expl ns_def)
  note b = build_remap_tree_of_loop[OF loop]
  have sink: "is_sink (ns ! 0)" "is_sink (ns ! 1)"
    by (simp_all add: ns_def base3_def is_sink_def new_node_def)
  have aF: "agrees \<lparr>nodes = ns, links = ls3\<rparr> (build_remap_tree img ps tol)"
    unfolding b by (rule agrees_final[OF sink]) (simp_all add: mk_link_def)
  have aBF: "agrees ?B (build_remap_tree img ps tol)"
    using agrees_trans[OF a3[folded ns_def] aF] .
  have lns: "length ns = 3 + 7 * length ps"
    by (simp add: ns_def len3 l1 l3 length_pair_nodes ps)
  have "length (nodes (build_remap_tree img ps tol)) = length ns"
    by (simp only: b node_tree.select_convs)
  with lns have lenF: "length (nodes (build_remap_tree img ps tol)) = 3 + 7 * length ps"
    by simp
  have fuel: "1 + 5 * length pre + 1 \<le> length (nodes (build_remap_tree img ps tol))"
    using i by (simp add: lenF lpre)
  have idx: "length ?xs + 2 = 3 + 7 * i + 2"
    by (simp add: len3 l1 lpre)
  show "eval_socket (length (nodes (build_remap_tree img ps tol)))
           (build_remap_tree img ps tol) tex (3 + 7 * i + 2) (Name ''Value'')
         = Some (Float (color_distance (spec_chain (tex img) (take i ps) tol) (fst (ps ! i))))"
    using eval_socket_mono[OF aBF fuel d] by (simp only: idx p fst_conv pre_def)
  have "ns ! (length ?xs + 2) = pair_nodes i s t tol ! 2"
    using nth_append_length_plus[of ?xs "pair_nodes i s t tol @ ys3" 2]
    by (simp add: ns_def nth_append length_pair_nodes)
  then have nd: "nodes (build_remap_tree img ps tol) ! (3 + 7 * i + 2) = pair_nodes i s t tol ! 2"
    by (simp only: b node_tree.select_convs idx)
  show "bl_idname (nodes (build_remap_tree img ps tol) ! (3 + 7 * i + 2)) = ShaderNodeVectorMath"
    by (simp only: nd pair_nodes_nth node.select_convs)
  show "operation (nodes (build_remap_tree img ps tol) ! (3 + 7 * i + 2)) = DISTANCE"
    by (simp only: nd pair_nodes_nth node.select_convs)
qed

lemma factor_alpha:
  assumes "a1 \<noteq> a2"
  shows "spec_blend_factor (r, g, b, a1) (r, g, b, a2) tol < 1"
proof -
  have "0 < \<bar>a1 - a2\<bar> / max tol spec_epsilon"
    using assms max_eps_pos[of tol] by simp
  then show ?thesis
    by (simp add: spec_blend_factor_def spec_clamp_def color_distance_alpha
        del: color_distance.simps)
qed

section \<open>Two pairs in either order\<close>


section \<open>Claims\<close>

text \<open>
  C1. For every remap chain and every sampled input colour, the graph built by
  \<open>apply_color_remaps\<close> computes the chained blend: starting from the texture sample,
  each pair in list order replaces the current colour by
  \<open>lerp(current, target, clamp(1 - distance(current, source) / max(tolerance, 1e-5), 0, 1))\<close>,
  each pair reading the output of the previous one, and the final colour is the one bound
  to the base-colour input of the shading node.
\<close>

theorem chained_blend:
  assumes "src_image st b = Some src_img"
  shows "remap_color st b v remap_pairs tolerance tex
           = Some (spec_chain (tex src_img) remap_pairs tolerance)"
  using assms by (rule remap_color_eq)

theorem chained_blend_witness:
  "src_image example_scene 0 = Some 0 \<and>
   remap_color example_scene 0 1
     [((1, 8/10, 0, 1), (0, 2/10, 1, 1)), ((8/10, 2/10, 2/10, 1), (1/10, 9/10, 3/10, 1))]
     (1/10) (uniform (1, 8/10, 0, 1))
     = Some (0, 2/10, 1, 1)"
proof -
  have "(1::real)/10 \<le> sqrt (32/25)"
    by (rule real_le_rsqrt) (simp add: power2_eq_square)
  then have d: "(1::real)/10 \<le> color_distance (0, 2/10, 1, 1) (8/10, 2/10, 2/10, 1)"
    by (simp add: power2_eq_square)
  show ?thesis
    using chained_blend[OF src_image_example, of 1
        "[((1, 8/10, 0, 1), (0, 2/10, 1, 1)), ((8/10, 2/10, 2/10, 1), (1/10, 9/10, 3/10, 1))]"
        "1/10" "uniform (1, 8/10, 0, 1)"] d
    by (simp add: src_image_example uniform_def spec_next_def spec_blend_factor_def
        spec_clamp_def spec_epsilon_def)
qed

text \<open>
  C2. For every pair i of the chain, the node whose value drives that pair's blend
  factor is a vector-math node with operation DISTANCE, fed the current colour (the
  output of the pairs before it) and the pair's source colour; its value, in the spec's
  reading of that node, is the Euclidean distance over all four channels, so two colours
  that differ only in alpha are at nonzero distance and do not match fully (blend factor
  below 1).
\<close>

theorem distance_includes_alpha:
  assumes "i < length remap_pairs"
  shows "bl_idname (nodes (build_remap_tree src_img remap_pairs tolerance) ! (3 + 7 * i + 2))
           = ShaderNodeVectorMath \<and>
         operation (nodes (build_remap_tree src_img remap_pairs tolerance) ! (3 + 7 * i + 2))
           = DISTANCE \<and>
         eval_socket (length (nodes (build_remap_tree src_img remap_pairs tolerance)))
           (build_remap_tree src_img remap_pairs tolerance) tex (3 + 7 * i + 2) (Name ''Value'')
           = Some (Float (color_distance
               (spec_chain (tex src_img) (take i remap_pairs) tolerance)
               (fst (remap_pairs ! i)))) \<and>
         color_distance (r1, g1, b1, a1) (r2, g2, b2, a2)
           = sqrt ((r1 - r2)\<^sup>2 + (g1 - g2)\<^sup>2 + (b1 - b2)\<^sup>2 + (a1 - a2)\<^sup>2) \<and>
         (a1 \<noteq> a2 \<longrightarrow>
            color_distance (r1, g1, b1, a1) (r1, g1, b1, a2) \<noteq> 0 \<and>
            spec_blend_factor (r1, g1, b1, a1) (r1, g1, b1, a2) tolerance < 1)"
proof -
  have "a1 \<noteq> a2 \<Longrightarrow> color_distance (r1, g1, b1, a1) (r1, g1, b1, a2) \<noteq> 0"
    by (simp add: color_distance_alpha del: color_distance.simps)
  then show ?thesis
    using dist_node_value(1)[OF assms, where img = src_img and tol = tolerance and tex = tex]
      dist_node_value(2,3)[OF assms, where img = src_img and tol = tolerance]
      factor_alpha[of a1 a2 r1 g1 b1 tolerance]
    by (simp del: color_distance.simps add: color_distance.simps[of r1 g1 b1 a1 r2 g2 b2 a2])
qed

theorem distance_includes_alpha_witness:
  "(0::nat) < length [((1, 8/10, 0, 1), ((0, 2/10, 1, 1) :: color))] \<and>
   eval_socket (length (nodes (build_remap_tree 0 [((1, 8/10, 0, 1), (0, 2/10, 1, 1))] (1/10))))
     (build_remap_tree 0 [((1, 8/10, 0, 1), (0, 2/10, 1, 1))] (1/10))
     (uniform (1, 8/10, 0, 1/2)) (3 + 7 * 0 + 2) (Name ''Value'') = Some (Float (1/2)) \<and>
   (1/2 :: real) \<noteq> 1 \<and>
   color_distance (1, 8/10, 0, 1/2) (1, 8/10, 0, 1) \<noteq> 0 \<and>
   spec_blend_factor (1, 8/10, 0, 1/2) (1, 8/10, 0, 1) (1/10) < 1"
  using distance_includes_alpha[where i = 0
      and remap_pairs = "[((1, 8/10, 0, 1), (0, 2/10, 1, 1))]" and src_img = 0
      and tolerance = "1/10" and tex = "uniform (1, 8/10, 0, 1/2)"
      and ?r1.0 = 1 and ?g1.0 = "8/10" and ?b1.0 = 0 and ?a1.0 = "1/2"
      and ?r2.0 = 1 and ?g2.0 = "8/10" and ?b2.0 = 0 and ?a2.0 = 1]
  by (simp add: uniform_def color_distance_alpha del: color_distance.simps)

text \<open>
  C3. For a chain with a single pair (source S, target T), if the sampled input colour is
  exactly S, the colour the graph produces is exactly T (blend factor 1). This holds for
  every tolerance, in particular for every tolerance of at least 1e-5.
\<close>

theorem exact_match_gives_target:
  assumes "src_image st b = Some src_img" and "tex src_img = S"
  shows "remap_color st b v [(S, T)] tolerance tex = Some T"
  using assms by (simp add: remap_color_eq single_pair factor_exact lerp_1)

theorem exact_match_gives_target_witness:
  "src_image example_scene 0 = Some 0 \<and> uniform (1, 8/10, 0, 1) 0 = (1, 8/10, 0, 1) \<and>
   remap_color example_scene 0 1 [((1, 8/10, 0, 1), (0, 2/10, 1, 1))] (1/10)
     (uniform (1, 8/10, 0, 1)) = Some (0, 2/10, 1, 1)"
  using exact_match_gives_target[OF src_image_example, of "uniform (1, 8/10, 0, 1)"
      "(1, 8/10, 0, 1)" 1 "(0, 2/10, 1, 1)" "1/10"]
  by (simp add: src_image_example uniform_def)

text \<open>
  C4, as stated: for a chain with a single pair and any tolerance, a sample at distance at
  least the tolerance from S comes out unchanged. With tolerance 0 a sample equal to S is
  at distance 0, which is at least the tolerance, and it is replaced by T.
\<close>

theorem far_sample_counterexample:
  "src_image example_scene 0 = Some 0 \<and>
   (0::real) \<le> color_distance (uniform (1, 0, 0, 1) 0) (1, 0, 0, 1) \<and>
   remap_color example_scene 0 1 [((1, 0, 0, 1), (0, 0, 0, 1))] 0 (uniform (1, 0, 0, 1))
     \<noteq> Some (uniform (1, 0, 0, 1) 0)"
  by (simp add: src_image_example remap_color_eq[OF src_image_example] single_pair
      uniform_def factor_exact)

text \<open>
  C4, amended: for a chain with a single pair (source S, target T), if the sampled input
  colour is at distance at least \<open>max(tolerance, 1e-5)\<close> from S, the graph's output
  equals the unmodified input sample (blend factor 0).
\<close>

theorem far_sample_unchanged:
  assumes "src_image st b = Some src_img"
    and "max tolerance spec_epsilon \<le> color_distance (tex src_img) S"
  shows "remap_color st b v [(S, T)] tolerance tex = Some (tex src_img)"
  using assms by (simp add: remap_color_eq single_pair factor_far lerp_0)

theorem far_sample_unchanged_witness:
  "src_image example_scene 0 = Some 0 \<and>
   max (1/10) spec_epsilon \<le> color_distance (uniform (0, 0, 0, 1) 0) (1, 8/10, 0, 1) \<and>
   remap_color example_scene 0 1 [((1, 8/10, 0, 1), (0, 2/10, 1, 1))] (1/10)
     (uniform (0, 0, 0, 1)) = Some (0, 0, 0, 1)"
proof -
  have "(1::real)/10 \<le> sqrt (41/25)"
    by (rule real_le_rsqrt) (simp add: power2_eq_square)
  then have d: "max (1/10) spec_epsilon
      \<le> color_distance (uniform (0, 0, 0, 1) 0) (1, 8/10, 0, 1)"
    by (simp add: uniform_def spec_epsilon_def power2_eq_square)
  show ?thesis
    using far_sample_unchanged[where st = example_scene and b = 0 and src_img = 0
        and tex = "uniform (0, 0, 0, 1)" and S = "(1, 8/10, 0, 1)" and tolerance = "1/10"
        and v = 1 and T = "(0, 2/10, 1, 1)"] d
    by (simp add: src_image_example uniform_def)
qed

text \<open>
  C5, as stated: for a chain with a single pair and any tolerance, a sample at distance
  exactly half the tolerance from S comes out as the midpoint of the sample and T. With
  tolerance 0 a sample equal to S is at distance 0, half the tolerance, and the output is
  T, not the midpoint.
\<close>

theorem midpoint_counterexample:
  "src_image example_scene 0 = Some 0 \<and>
   color_distance (uniform (1, 0, 0, 1) 0) (1, 0, 0, 1) = 0 / 2 \<and>
   remap_color example_scene 0 1 [((1, 0, 0, 1), (0, 0, 0, 1))] 0 (uniform (1, 0, 0, 1))
     \<noteq> Some (1/2 * 1 + 1/2 * 0, 1/2 * 0 + 1/2 * 0, 1/2 * 0 + 1/2 * 0, 1/2 * 1 + 1/2 * 1)"
  by (simp add: src_image_example remap_color_eq[OF src_image_example] single_pair
      uniform_def factor_exact)

text \<open>
  C5, amended: for a chain with a single pair (source S, target T) and a tolerance of at
  least 1e-5, if the sampled input colour is at distance exactly half the tolerance from
  S, the graph's output equals \<open>0.5*input + 0.5*T\<close> (blend factor one half), over the
  real numbers.
\<close>

theorem midpoint_blend:
  assumes "src_image st b = Some src_img"
    and "spec_epsilon \<le> tolerance"
    and "color_distance (tex src_img) S = tolerance / 2"
    and "tex src_img = (r, g, bl, a)" and "T = (r', g', bl', a')"
  shows "remap_color st b v [(S, T)] tolerance tex
           = Some (1/2 * r + 1/2 * r', 1/2 * g + 1/2 * g', 1/2 * bl + 1/2 * bl',
                   1/2 * a + 1/2 * a')"
  using assms by (simp add: remap_color_eq single_pair factor_half)

theorem midpoint_blend_witness:
  "src_image example_scene 0 = Some 0 \<and> spec_epsilon \<le> 2/10 \<and>
   color_distance (uniform (6/10, 5/10, 5/10, 1) 0) (5/10, 5/10, 5/10, 1) = (2/10) / 2 \<and>
   remap_color example_scene 0 1 [((5/10, 5/10, 5/10, 1), (1, 0, 0, 1))] (2/10)
     (uniform (6/10, 5/10, 5/10, 1)) = Some (8/10, 1/4, 1/4, 1)"
proof -
  have e: "spec_epsilon \<le> 2/10" by (simp add: spec_epsilon_def)
  have d: "color_distance (uniform (6/10, 5/10, 5/10, 1) 0) (5/10, 5/10, 5/10, 1) = (2/10) / 2"
    by (simp add: uniform_def)
  show ?thesis
    using midpoint_blend[where st = example_scene and b = 0 and src_img = 0
        and tex = "uniform (6/10, 5/10, 5/10, 1)" and S = "(5/10, 5/10, 5/10, 1)"
        and tolerance = "2/10" and v = 1 and T = "(1, 0, 0, 1)"
        and r = "6/10" and g = "5/10" and bl = "5/10" and a = 1
        and r' = 1 and g' = 0 and bl' = 0 and a' = 1] e d
    by (simp add: src_image_example uniform_def)
qed







text \<open>
  C8. For every tolerance of at most 0 the divisor written into the graph is
  \<open>max(tolerance, 1e-5) = 1e-5\<close>: the call does exactly what it does for tolerance 1e-5,
  it is not a failure (with an image source present a material is returned), and the
  graph has a value (no division by zero), the chained blend at tolerance 1e-5.
\<close>

theorem nonpositive_tolerance_coerced:
  assumes "tolerance \<le> 0"
  shows "apply_color_remaps st base_obj variant_obj remap_pairs tolerance
           = apply_color_remaps st base_obj variant_obj remap_pairs spec_epsilon \<and>
         (src_image st b = Some src_img \<longrightarrow>
            fst (apply_color_remaps st (Some b) (Some v) remap_pairs tolerance) \<noteq> None \<and>
            remap_color st b v remap_pairs tolerance tex
              = Some (spec_chain (tex src_img) remap_pairs spec_epsilon))"
proof -
  have m: "max tolerance (1/100000) = max spec_epsilon (1/100000)"
    using assms by (simp add: spec_epsilon_def max_def)
  have a: "apply_color_remaps st bo vo remap_pairs tolerance
           = apply_color_remaps st bo vo remap_pairs spec_epsilon" for bo vo
    using apply_color_remaps_max[of st bo vo remap_pairs tolerance]
      apply_color_remaps_max[of st bo vo remap_pairs spec_epsilon]
    by (simp only: m)
  show ?thesis
  proof (intro conjI impI)
    show "apply_color_remaps st base_obj variant_obj remap_pairs tolerance
           = apply_color_remaps st base_obj variant_obj remap_pairs spec_epsilon"
      by (rule a)
  next
    assume s: "src_image st b = Some src_img"
    show "fst (apply_color_remaps st (Some b) (Some v) remap_pairs tolerance) \<noteq> None"
      by (simp add: apply_color_remaps_success[OF s])
    show "remap_color st b v remap_pairs tolerance tex
              = Some (spec_chain (tex src_img) remap_pairs spec_epsilon)"
      using remap_color_eq[OF s, of v remap_pairs spec_epsilon tex]
      by (simp add: remap_color_def a)
  qed
qed

theorem nonpositive_tolerance_coerced_witness:
  "(0::real) \<le> 0 \<and>
   apply_color_remaps example_scene (Some 0) (Some 1) [((1, 8/10, 0, 1), (0, 2/10, 1, 1))] 0
     = apply_color_remaps example_scene (Some 0) (Some 1)
         [((1, 8/10, 0, 1), (0, 2/10, 1, 1))] spec_epsilon \<and>
   src_image example_scene 0 = Some 0 \<and>
   fst (apply_color_remaps example_scene (Some 0) (Some 1)
         [((1, 8/10, 0, 1), (0, 2/10, 1, 1))] 0) \<noteq> None \<and>
   remap_color example_scene 0 1 [((1, 8/10, 0, 1), (0, 2/10, 1, 1))] 0
     (uniform (1, 8/10, 0, 1)) = Some (0, 2/10, 1, 1)"
  using nonpositive_tolerance_coerced[where tolerance = 0 and st = example_scene
      and base_obj = "Some 0" and variant_obj = "Some 1" and b = 0 and v = 1 and src_img = 0
      and remap_pairs = "[((1, 8/10, 0, 1), (0, 2/10, 1, 1))]"
      and tex = "uniform (1, 8/10, 0, 1)"]
  by (auto simp: src_image_example uniform_def single_pair factor_exact)

text \<open>
  C9. If the image source is absent (a required object is missing, the base object has
  no material, or no image-texture node with an image is found in the base material),
  \<open>apply_color_remaps\<close> reports it through its return value: it returns no material, and
  it has built nothing and changed nothing.
\<close>

theorem missing_image_source_reported:
  assumes "base_obj = None \<or> variant_obj = None \<or>
     (\<exists>b. base_obj = Some b \<and>
        (active_material st b = None \<or>
         (\<exists>m. active_material st b = Some m \<and> find_src_img (bpy_materials st ! m) = None)))"
  shows "apply_color_remaps st base_obj variant_obj remap_pairs tolerance = (None, st)"
  using assms
  by (auto simp: apply_color_remaps_def split: option.splits)

theorem missing_image_source_reported_witness:
  "active_material untextured_scene 0 = Some 0 \<and>
   find_src_img (bpy_materials untextured_scene ! 0) = None \<and>
   apply_color_remaps untextured_scene (Some 0) (Some 1)
     [((1, 8/10, 0, 1), (0, 2/10, 1, 1))] (1/10) = (None, untextured_scene)"
proof -
  have a: "active_material untextured_scene 0 = Some 0"
    by (simp add: untextured_scene_def active_material_def)
  have f: "find_src_img (bpy_materials untextured_scene ! 0) = None"
    by (simp add: untextured_scene_def find_src_img_def)
  show ?thesis
    using missing_image_source_reported[where st = untextured_scene
        and base_obj = "Some 0" and variant_obj = "Some 1"
        and remap_pairs = "[((1, 8/10, 0, 1), (0, 2/10, 1, 1))]" and tolerance = "1/10"] a f
    by simp
qed

text \<open>
  C10, as stated: \<open>apply_color_remaps\<close> never modifies the base object. When the base and
  the variant are two objects that point to the same mesh data (linked duplicates), the
  call succeeds and the base object's material slots, and with them its active material,
  are replaced too.
\<close>

theorem shared_mesh_counterexample:
  "fst (apply_color_remaps shared_mesh_scene (Some 0) (Some 1) [] (1/10)) = Some 1 \<and>
   material_slots shared_mesh_scene 0 = [0] \<and>
   material_slots (snd (apply_color_remaps shared_mesh_scene (Some 0) (Some 1) [] (1/10))) 0
     = [1] \<and>
   active_material (snd (apply_color_remaps shared_mesh_scene (Some 0) (Some 1) [] (1/10))) 0
     \<noteq> active_material shared_mesh_scene 0"
  by (simp add: apply_color_remaps_success[OF src_image_shared] material_slots_def
      active_material_def)
     (simp add: shared_mesh_scene_def)

text \<open>
  C10, amended: \<open>apply_color_remaps\<close> never modifies an object record or an existing
  material (so the base material and its node tree are only read). On the failure paths
  it leaves the whole store unchanged. On success the only changes are the freshly
  created remap material, added to the materials, and the material slots of the
  variant's mesh data, which afterwards contain exactly that one material regardless of
  how many there were before; the base object's slots and active material are unchanged
  provided the base and the variant do not share their mesh data.
\<close>

theorem remap_frame:
  assumes "apply_color_remaps st base_obj variant_obj remap_pairs tolerance = (r, st')"
  shows "objects st' = objects st \<and>
         take (length (bpy_materials st)) (bpy_materials st') = bpy_materials st \<and>
         (r = None \<longrightarrow> st' = st) \<and>
         (\<forall>m. r = Some m \<longrightarrow>
            (\<exists>b v. base_obj = Some b \<and> variant_obj = Some v \<and>
               m = length (bpy_materials st) \<and> length (bpy_materials st') = Suc m \<and>
               meshes st' = (meshes st)[data (objects st ! v) := \<lparr>materials = [m]\<rparr>] \<and>
               (data (objects st ! b) \<noteq> data (objects st ! v) \<longrightarrow>
                  material_slots st' b = material_slots st b \<and>
                  active_material st' b = active_material st b) \<and>
               (data (objects st ! v) < length (meshes st) \<longrightarrow>
                  material_slots st' v = [m])))"
proof (cases "base_obj = None \<or> variant_obj = None \<or>
     (\<exists>b. base_obj = Some b \<and> src_image st b = None)")
  case True
  then have "apply_color_remaps st base_obj variant_obj remap_pairs tolerance = (None, st)"
    by (rule apply_color_remaps_failure)
  with assms show ?thesis by simp
next
  case False
  then obtain b v img where bv: "base_obj = Some b" "variant_obj = Some v"
    and img: "src_image st b = Some img"
    by auto
  show ?thesis
    using assms
    by (auto simp: bv apply_color_remaps_success[OF img] material_slots_def
        active_material_def)
qed

theorem remap_frame_witness:
  "fst (apply_color_remaps example_scene (Some 0) (Some 1) [] (1/10)) = Some 1 \<and>
   objects (snd (apply_color_remaps example_scene (Some 0) (Some 1) [] (1/10)))
     = objects example_scene \<and>
   data (objects example_scene ! 0) \<noteq> data (objects example_scene ! 1) \<and>
   material_slots (snd (apply_color_remaps example_scene (Some 0) (Some 1) [] (1/10))) 0
     = material_slots example_scene 0 \<and>
   material_slots (snd (apply_color_remaps example_scene (Some 0) (Some 1) [] (1/10))) 1 = [1]"
proof -
  have f: "fst (apply_color_remaps example_scene (Some 0) (Some 1) [] (1/10)) = Some 1"
    by (simp add: apply_color_remaps_success[OF src_image_example])
       (simp add: example_scene_def)
  have d: "data (objects example_scene ! 0) \<noteq> data (objects example_scene ! 1)"
    "data (objects example_scene ! 1) < length (meshes example_scene)"
    "length (bpy_materials example_scene) = 1"
    by (simp_all add: example_scene_def)
  show ?thesis
    using remap_frame[where st = example_scene and base_obj = "Some 0"
        and variant_obj = "Some 1" and remap_pairs = "[]" and tolerance = "1/10"
        and r = "fst (apply_color_remaps example_scene (Some 0) (Some 1) [] (1/10))"
        and st' = "snd (apply_color_remaps example_scene (Some 0) (Some 1) [] (1/10))"]
      f d
    by auto
qed

end
